theory Spec2Isabelle
  imports Main "HOL-Library.Word"
begin

unbundle bit_operations_syntax

section \<open>Data model of framebuffer.c\<close>

text \<open>
  The C integer types are kept with their widths: \<open>uint16_t\<close>, \<open>uint32_t\<close> and
  \<open>uint64_t\<close> are words. A plain C \<open>int\<close> (file descriptors, error codes, the
  requested resolution index) is an \<open>int\<close>: the program only compares and negates such
  values, it never does arithmetic on them that could overflow.
\<close>

type_synonym u16 = "16 word"
type_synonym u32 = "32 word"
type_synonym u64 = "64 word"

text \<open>
  \<open>struct type_name\<close>, lines 13-16. The field \<open>type\<close> is called \<open>tn_type\<close> here and
  \<open>name\<close> is \<open>tn_name\<close>.
\<close>

record type_name =
  tn_type :: u32
  tn_name :: string

text \<open>
  Modelled from the spec: the header that defines the \<open>DRM_MODE_CONNECTOR_*\<close> macros is
  not part of the sources. The spec says that the table covers the identifiers
  \<open>0..N-1\<close>, where \<open>N\<close> is the number of known connector types, so the macros are
  numbered in the order of the table.
\<close>

definition DRM_MODE_CONNECTOR_Unknown :: u32 where "DRM_MODE_CONNECTOR_Unknown = 0"
definition DRM_MODE_CONNECTOR_VGA :: u32 where "DRM_MODE_CONNECTOR_VGA = 1"
definition DRM_MODE_CONNECTOR_DVII :: u32 where "DRM_MODE_CONNECTOR_DVII = 2"
definition DRM_MODE_CONNECTOR_DVID :: u32 where "DRM_MODE_CONNECTOR_DVID = 3"
definition DRM_MODE_CONNECTOR_DVIA :: u32 where "DRM_MODE_CONNECTOR_DVIA = 4"
definition DRM_MODE_CONNECTOR_Composite :: u32 where "DRM_MODE_CONNECTOR_Composite = 5"
definition DRM_MODE_CONNECTOR_SVIDEO :: u32 where "DRM_MODE_CONNECTOR_SVIDEO = 6"
definition DRM_MODE_CONNECTOR_LVDS :: u32 where "DRM_MODE_CONNECTOR_LVDS = 7"
definition DRM_MODE_CONNECTOR_Component :: u32 where "DRM_MODE_CONNECTOR_Component = 8"
definition DRM_MODE_CONNECTOR_9PinDIN :: u32 where "DRM_MODE_CONNECTOR_9PinDIN = 9"
definition DRM_MODE_CONNECTOR_DisplayPort :: u32 where "DRM_MODE_CONNECTOR_DisplayPort = 10"
definition DRM_MODE_CONNECTOR_HDMIA :: u32 where "DRM_MODE_CONNECTOR_HDMIA = 11"
definition DRM_MODE_CONNECTOR_HDMIB :: u32 where "DRM_MODE_CONNECTOR_HDMIB = 12"
definition DRM_MODE_CONNECTOR_TV :: u32 where "DRM_MODE_CONNECTOR_TV = 13"
definition DRM_MODE_CONNECTOR_eDP :: u32 where "DRM_MODE_CONNECTOR_eDP = 14"
definition DRM_MODE_CONNECTOR_VIRTUAL :: u32 where "DRM_MODE_CONNECTOR_VIRTUAL = 15"
definition DRM_MODE_CONNECTOR_DSI :: u32 where "DRM_MODE_CONNECTOR_DSI = 16"
definition DRM_MODE_CONNECTOR_DPI :: u32 where "DRM_MODE_CONNECTOR_DPI = 17"

text \<open>The table \<open>connector_type_names\<close>, lines 18-37, in the order of the source.\<close>

definition connector_type_names :: "type_name list" where
  "connector_type_names =
    [\<lparr>tn_type = DRM_MODE_CONNECTOR_Unknown, tn_name = ''unknown''\<rparr>,
     \<lparr>tn_type = DRM_MODE_CONNECTOR_VGA, tn_name = ''VGA''\<rparr>,
     \<lparr>tn_type = DRM_MODE_CONNECTOR_DVII, tn_name = ''DVI-I''\<rparr>,
     \<lparr>tn_type = DRM_MODE_CONNECTOR_DVID, tn_name = ''DVI-D''\<rparr>,
     \<lparr>tn_type = DRM_MODE_CONNECTOR_DVIA, tn_name = ''DVI-A''\<rparr>,
     \<lparr>tn_type = DRM_MODE_CONNECTOR_Composite, tn_name = ''composite''\<rparr>,
     \<lparr>tn_type = DRM_MODE_CONNECTOR_SVIDEO, tn_name = ''s-video''\<rparr>,
     \<lparr>tn_type = DRM_MODE_CONNECTOR_LVDS, tn_name = ''LVDS''\<rparr>,
     \<lparr>tn_type = DRM_MODE_CONNECTOR_Component, tn_name = ''component''\<rparr>,
     \<lparr>tn_type = DRM_MODE_CONNECTOR_9PinDIN, tn_name = ''9-pin DIN''\<rparr>,
     \<lparr>tn_type = DRM_MODE_CONNECTOR_DisplayPort, tn_name = ''DP''\<rparr>,
     \<lparr>tn_type = DRM_MODE_CONNECTOR_HDMIA, tn_name = ''HDMI-A''\<rparr>,
     \<lparr>tn_type = DRM_MODE_CONNECTOR_HDMIB, tn_name = ''HDMI-B''\<rparr>,
     \<lparr>tn_type = DRM_MODE_CONNECTOR_TV, tn_name = ''TV''\<rparr>,
     \<lparr>tn_type = DRM_MODE_CONNECTOR_eDP, tn_name = ''eDP''\<rparr>,
     \<lparr>tn_type = DRM_MODE_CONNECTOR_VIRTUAL, tn_name = ''Virtual''\<rparr>,
     \<lparr>tn_type = DRM_MODE_CONNECTOR_DSI, tn_name = ''DSI''\<rparr>,
     \<lparr>tn_type = DRM_MODE_CONNECTOR_DPI, tn_name = ''DPI''\<rparr>]"

text \<open>
  \<open>connector_type_name\<close>, lines 39-46. \<open>ARRAY_SIZE\<close> is the number of entries of the
  table. The argument is unsigned, so the test \<open>type >= 0\<close> of the source is always
  true; it is kept as \<open>0 \<le> unat ty\<close>. The entry is found by position, its \<open>type\<close>
  field is not read.
\<close>

definition connector_type_name :: "u32 \<Rightarrow> string" where
  "connector_type_name ty =
    (if unat ty < length connector_type_names \<and> 0 \<le> unat ty
     then tn_name (connector_type_names ! unat ty)
     else ''INVALID'')"

text \<open>
  Modelled from the spec: the vocabulary of connector type names that the spec documents.
  Section 6 of the spec gives it by example: "VGA", "HDMI-A", "eDP" and "DisplayPort"; it
  spells out no other name. Each name is attached to the identifier of the connector type
  it names.
\<close>

definition documented_name :: "u32 \<Rightarrow> string option" where
  "documented_name ty =
    map_of [(DRM_MODE_CONNECTOR_VGA, ''VGA''), (DRM_MODE_CONNECTOR_HDMIA, ''HDMI-A''),
            (DRM_MODE_CONNECTOR_eDP, ''eDP''),
            (DRM_MODE_CONNECTOR_DisplayPort, ''DisplayPort'')] ty"

subsection \<open>The structures of the display interface\<close>

text \<open>
  The declarations of the structures are in headers that are not part of the sources;
  the records have the fields that \<open>framebuffer.c\<close> reads or writes, under the names
  of the source where no other record or constant has that name: the field \<open>type\<close> of a
  mode is \<open>mode_type\<close>, \<open>crtc_id\<close> of an encoder is \<open>enc_crtc_id\<close>, \<open>buffer_id\<close> of a
  controller is \<open>crtc_buffer_id\<close>, \<open>size\<close> of a dumb buffer is \<open>dumb_size\<close>. The
  counters \<open>count_modes\<close> and \<open>count_connectors\<close> are the lengths of the arrays they
  count.
\<close>

record drmModeModeInfo =
  hdisplay :: u16
  vdisplay :: u16
  mode_type :: u32

record drmModeConnector =
  connector_id :: u32
  encoder_id :: u32
  connector_type :: u32
  connector_type_id :: u32
  modes :: "drmModeModeInfo list"
  encoders :: "u32 list"

definition count_modes :: "drmModeConnector \<Rightarrow> int" where
  "count_modes c = int (length (modes c))"

record drmModeRes =
  connectors :: "u32 list"
  crtcs :: "u32 list"

record drmModeEncoder =
  enc_crtc_id :: u32

text \<open>
  Modelled from the spec: the declaration of the controller structure is not under the
  sources. The program reads \<open>crtc_id\<close> and \<open>buffer_id\<close>; the spec's CrtcState also
  holds the mode the controller had before the acquisition, the field \<open>crtc_mode\<close>.
\<close>

record drmModeCrtc =
  crtc_id :: u32
  crtc_buffer_id :: u32
  crtc_mode :: drmModeModeInfo

record drm_mode_create_dumb =
  height :: u32
  width :: u32
  bpp :: u32
  flags :: u32
  handle :: u32
  pitch :: u32
  dumb_size :: u64

text \<open>
  \<open>struct framebuffer\<close>. A pointer that may be null is an option, \<open>None\<close> for the null
  pointer. \<open>resolution\<close> points into the mode array of a connector; the model holds the
  mode it points to. \<open>data\<close> is the address that \<open>mmap\<close> returned.
\<close>

record framebuffer =
  fd :: int
  buffer_id :: u32
  dumb_framebuffer :: drm_mode_create_dumb
  crtc :: "drmModeCrtc option"
  connector :: "drmModeConnector option"
  resolution :: "drmModeModeInfo option"
  data :: int

text \<open>The arrays \<open>uint32_t handles[4], pitches[4], offsets[4]\<close> of line 79.\<close>

type_synonym u32x4 = "u32 \<times> u32 \<times> u32 \<times> u32"

fun set_slot0 :: "u32x4 \<Rightarrow> u32 \<Rightarrow> u32x4" where
  "set_slot0 (a, b, c, d) v = (v, b, c, d)"

record addfb2_args =
  a_fd :: int
  a_width :: u32
  a_height :: u32
  a_pixel_format :: u32
  a_handles :: u32x4
  a_pitches :: u32x4
  a_offsets :: u32x4
  a_flags :: u32

subsection \<open>Calls into the kernel and the display library\<close>

text \<open>
  The program acts on the outside only through calls of the C library and of the display
  library. A run is modelled by the list of these calls, in the order in which they are
  made, each with its arguments. The diagnostics written with \<open>printf\<close> are left out.
  \<open>E_drmModeSetCrtc\<close> has the arguments of the call of line 55: descriptor, controller,
  buffer, x, y, the connector array, its count and the mode. The connector array is
  \<open>&fb->connector->connector_id\<close>: \<open>None\<close> stands for the address formed from a null
  connector. \<open>E_drmModeFreeFB\<close> frees what \<open>drmModeGetFB\<close> returned for that buffer.
\<close>

datatype event =
    E_open string
  | E_drmModeGetResources int
  | E_drmModeGetConnectorCurrent int u32
  | E_drmModeFreeConnector drmModeConnector
  | E_ioctl_CREATE_DUMB int drm_mode_create_dumb
  | E_drmModeAddFB2 addfb2_args
  | E_drmModeGetEncoder int u32
  | E_drmModeFreeEncoder drmModeEncoder
  | E_drmModeGetCrtc int u32
  | E_drmIoctl_MAP_DUMB int u32
  | E_mmap u64 int u64
  | E_drmDropMaster int
  | E_drmSetMaster int
  | E_drmModeSetCrtc int u32 u32 u32 u32 "u32 option" int "drmModeModeInfo option"
  | E_drmModeFreeCrtc drmModeCrtc
  | E_drmModeGetFB int u32
  | E_drmModeFreeFB u32
  | E_ioctl_DESTROY_DUMB int drm_mode_create_dumb
  | E_close int

text \<open>
  What the program cannot decide is a parameter of the model: the values of the macros
  that come from headers outside the sources, the answers of the kernel to each call that
  returns something, and the contents of the three local arrays of line 79 when the
  function is entered, which the source does not initialise. A call that fills a
  structure through a pointer answers with its return value and the new contents.
  \<open>mmap\<close> answers with the address it returns and the value of \<open>errno\<close> after the call.
\<close>

record host =
  EINVAL :: int
  DRM_MODE_TYPE_PREFERRED :: u32
  DRM_FORMAT_ABGR8888 :: u32
  MAP_FAILED :: int
  sys_open :: "string \<Rightarrow> int"
  drmModeGetResources :: "int \<Rightarrow> drmModeRes option"
  drmModeGetConnectorCurrent :: "int \<Rightarrow> u32 \<Rightarrow> drmModeConnector option"
  ioctl_CREATE_DUMB :: "int \<Rightarrow> drm_mode_create_dumb \<Rightarrow> int \<times> drm_mode_create_dumb"
  drmModeAddFB2 :: "addfb2_args \<Rightarrow> u32 \<Rightarrow> int \<times> u32"
  drmModeGetEncoder :: "int \<Rightarrow> u32 \<Rightarrow> drmModeEncoder option"
  drmModeGetCrtc :: "int \<Rightarrow> u32 \<Rightarrow> drmModeCrtc option"
  drmIoctl_MAP_DUMB :: "int \<Rightarrow> u32 \<Rightarrow> int \<times> u64"
  sys_mmap :: "u64 \<Rightarrow> int \<Rightarrow> u64 \<Rightarrow> int \<times> int"
  uninit_handles :: u32x4
  uninit_pitches :: u32x4
  uninit_offsets :: u32x4

section \<open>The functions of framebuffer.c\<close>

subsection \<open>release_framebuffer\<close>

text \<open>
  Lines 48-70. The function returns the handle as it leaves it and the calls it made. The
  only field it writes is \<open>resolution\<close>, line 63.
\<close>

definition release_framebuffer :: "framebuffer \<Rightarrow> framebuffer \<times> event list" where
  "release_framebuffer fb =
    (if fd fb \<noteq> 0 then
       ((case connector fb of None \<Rightarrow> fb | Some c \<Rightarrow> fb\<lparr>resolution := None\<rparr>),
        [E_drmSetMaster (fd fb)]
        @ (case crtc fb of
             None \<Rightarrow> []
           | Some cr \<Rightarrow>
               [E_drmModeSetCrtc (fd fb) (crtc_id cr) (crtc_buffer_id cr) 0 0
                  (map_option connector_id (connector fb)) 1 (resolution fb),
                E_drmModeFreeCrtc cr])
        @ (if buffer_id fb \<noteq> 0
           then [E_drmModeGetFB (fd fb) (buffer_id fb), E_drmModeFreeFB (buffer_id fb)]
           else [])
        @ (case connector fb of None \<Rightarrow> [] | Some c \<Rightarrow> [E_drmModeFreeConnector c])
        @ (if handle (dumb_framebuffer fb) \<noteq> 0
           then [E_ioctl_DESTROY_DUMB (fd fb) (dumb_framebuffer fb)]
           else [])
        @ [E_close (fd fb)])
     else (fb, []))"

subsection \<open>The search for the connector\<close>

text \<open>\<open>%u\<close>: an unsigned number in decimal.\<close>

fun decimal :: "nat \<Rightarrow> string" where
  "decimal n =
    (if n < 10 then [''0123456789'' ! n]
     else decimal (n div 10) @ [''0123456789'' ! (n mod 10)])"

declare decimal.simps [simp del]

text \<open>
  Lines 98-105: \<open>snprintf\<close> into \<open>char name[32]\<close> keeps at most 31 characters.
\<close>

definition candidate_name :: "drmModeConnector \<Rightarrow> string" where
  "candidate_name c =
    take 31 (connector_type_name (connector_type c) @ ''-''
             @ decimal (unat (connector_type_id c)))"

text \<open>
  \<open>strncmp(a, b, n) == 0\<close> on strings without a NUL character inside: the first \<open>n\<close>
  characters agree, the end of a string counting as a character of its own.
\<close>

definition strncmp_eq :: "string \<Rightarrow> string \<Rightarrow> nat \<Rightarrow> bool" where
  "strncmp_eq a b n = (take n a = take n b)"

text \<open>
  The loop of lines 97-112 over the remaining connector identifiers. It returns the value
  of \<open>connector\<close> after the loop and the calls made.
\<close>

fun find_connector ::
  "host \<Rightarrow> int \<Rightarrow> string \<Rightarrow> u32 list \<Rightarrow> drmModeConnector option \<times> event list" where
  "find_connector H fdesc connector_name [] = (None, [])"
| "find_connector H fdesc connector_name (cid # ids) =
    (case drmModeGetConnectorCurrent H fdesc cid of
       None \<Rightarrow>
         (let (found, t) = find_connector H fdesc connector_name ids
          in (found, E_drmModeGetConnectorCurrent fdesc cid # t))
     | Some c \<Rightarrow>
         if strncmp_eq (candidate_name c) connector_name 32
         then (Some c, [E_drmModeGetConnectorCurrent fdesc cid])
         else
           (let (found, t) = find_connector H fdesc connector_name ids
            in (found, E_drmModeGetConnectorCurrent fdesc cid # E_drmModeFreeConnector c # t)))"

subsection \<open>The choice of the resolution\<close>

text \<open>
  The loop of lines 130-135 over the remaining modes: \<open>i\<close> is the index of the first of
  them and \<open>res\<close> the value of \<open>resolution\<close> so far, a pointer to \<open>modes[k]\<close> being the
  index \<open>k\<close>.
\<close>

fun scan_modes :: "u32 \<Rightarrow> drmModeModeInfo list \<Rightarrow> nat \<Rightarrow> nat option \<Rightarrow> nat option" where
  "scan_modes pref [] i res = res"
| "scan_modes pref (m # ms) i res =
    scan_modes pref ms (Suc i) (if mode_type m AND pref \<noteq> 0 then Some i else res)"

text \<open>Lines 124-140: the index of the mode that \<open>resolution\<close> points to at line 141.\<close>

definition select_resolution :: "u32 \<Rightarrow> drmModeConnector \<Rightarrow> int \<Rightarrow> nat" where
  "select_resolution pref c selected_resolution =
    (case (if 0 \<le> selected_resolution \<and> selected_resolution < count_modes c
           then Some (nat selected_resolution)
           else scan_modes pref (modes c) 0 None)
     of None \<Rightarrow> 0 | Some i \<Rightarrow> i)"

subsection \<open>get_framebuffer\<close>

text \<open>
  How the body of \<open>get_framebuffer\<close> is left: by one of the \<open>return\<close> statements of
  lines 85, 92, 116 and 121, or at the label \<open>cleanup\<close> with the values of \<open>err\<close>, of
  \<open>*fb\<close> and of \<open>encoder\<close>, or by reading the first element of an array that has none
  (\<open>connector->encoders[0]\<close>, \<open>res->crtcs[0]\<close>), which C leaves undefined.
\<close>

datatype exit_point =
    Return_early int
  | At_cleanup int framebuffer "drmModeEncoder option"
  | Undefined_read

text \<open>The result of a call: the value returned and the handle, or no defined result.\<close>

datatype outcome = Returned int framebuffer | Fault

text \<open>
  Lines 177-200: the dumb buffer is mapped and, when that succeeds, the privilege is
  dropped and the descriptor, the connector and the mode are stored in the handle.
  \<open>t\<close> are the calls made before.
\<close>

definition map_buffer ::
  "host \<Rightarrow> int \<Rightarrow> drmModeConnector \<Rightarrow> drmModeModeInfo \<Rightarrow> drmModeEncoder \<Rightarrow> framebuffer
     \<Rightarrow> event list \<Rightarrow> exit_point \<times> event list" where
  "map_buffer H fdesc c mode encoder fb t =
    (let (err, offset) = drmIoctl_MAP_DUMB H fdesc (handle (dumb_framebuffer fb));
         t1 = t @ [E_drmIoctl_MAP_DUMB fdesc (handle (dumb_framebuffer fb))]
     in if err \<noteq> 0 then (At_cleanup err fb (Some encoder), t1)
     else
      (let (p, errno) = sys_mmap H (dumb_size (dumb_framebuffer fb)) fdesc offset;
           fb1 = fb\<lparr>data := p\<rparr>;
           t2 = t1 @ [E_mmap (dumb_size (dumb_framebuffer fb)) fdesc offset]
       in if p = MAP_FAILED H then (At_cleanup errno fb1 (Some encoder), t2)
          else (At_cleanup err
                  (fb1\<lparr>fd := fdesc, connector := Some c, resolution := Some mode\<rparr>)
                  (Some encoder),
                t2 @ [E_drmDropMaster fdesc])))"

text \<open>
  Lines 162-175: the encoder and the controller are looked up and the state of the
  controller is stored in the handle; then the buffer is mapped.
\<close>

definition capture_crtc ::
  "host \<Rightarrow> int \<Rightarrow> drmModeRes \<Rightarrow> drmModeConnector \<Rightarrow> drmModeModeInfo \<Rightarrow> framebuffer
     \<Rightarrow> event list \<Rightarrow> exit_point \<times> event list" where
  "capture_crtc H fdesc res c mode fb t =
    (if encoder_id c = 0 \<and> encoders c = [] then (Undefined_read, t)
     else
      (let eid = (if encoder_id c \<noteq> 0 then encoder_id c else encoders c ! 0);
           t1 = t @ [E_drmModeGetEncoder fdesc eid]
       in case drmModeGetEncoder H fdesc eid of
            None \<Rightarrow> (At_cleanup (- EINVAL H) fb None, t1)
          | Some encoder \<Rightarrow>
              if enc_crtc_id encoder = 0 \<and> crtcs res = [] then (Undefined_read, t1)
              else
               (let cid = (if enc_crtc_id encoder \<noteq> 0 then enc_crtc_id encoder
                           else crtcs res ! 0);
                    fb1 = fb\<lparr>crtc := drmModeGetCrtc H fdesc cid\<rparr>;
                    t2 = t1 @ [E_drmModeGetCrtc fdesc cid]
                in if crtc fb1 = None
                   then (At_cleanup (- EINVAL H) fb1 (Some encoder), t2)
                   else map_buffer H fdesc c mode encoder fb1 t2)))"

text \<open>
  Lines 142-144: the request for a dumb buffer of the size of the mode, 32 bits per
  pixel; the other fields of \<open>fb->dumb_framebuffer\<close> stay as they are.
\<close>

definition dumb_request :: "framebuffer \<Rightarrow> drmModeModeInfo \<Rightarrow> drm_mode_create_dumb" where
  "dumb_request fb mode =
    (dumb_framebuffer fb)
      \<lparr>height := ucast (vdisplay mode), width := ucast (hdisplay mode), bpp := 32\<rparr>"

text \<open>
  Lines 152-156: the arguments of \<open>drmModeAddFB2\<close>. Of each of the three local arrays
  only the first slot is written before the call.
\<close>

definition registration_args ::
  "host \<Rightarrow> int \<Rightarrow> drmModeModeInfo \<Rightarrow> drm_mode_create_dumb \<Rightarrow> addfb2_args" where
  "registration_args H fdesc mode dumb =
    \<lparr>a_fd = fdesc, a_width = ucast (hdisplay mode), a_height = ucast (vdisplay mode),
     a_pixel_format = DRM_FORMAT_ABGR8888 H,
     a_handles = set_slot0 (uninit_handles H) (handle dumb),
     a_pitches = set_slot0 (uninit_pitches H) (pitch dumb),
     a_offsets = set_slot0 (uninit_offsets H) 0,
     a_flags = 0\<rparr>"

text \<open>
  Lines 142-160: the dumb buffer is created and registered; then lines 162-200 follow.
\<close>

definition allocate_and_map ::
  "host \<Rightarrow> int \<Rightarrow> drmModeRes \<Rightarrow> drmModeConnector \<Rightarrow> drmModeModeInfo \<Rightarrow> framebuffer
     \<Rightarrow> event list \<Rightarrow> exit_point \<times> event list" where
  "allocate_and_map H fdesc res c mode fb t =
    (let fb1 = fb\<lparr>dumb_framebuffer := dumb_request fb mode\<rparr>;
         (err1, dumb) = ioctl_CREATE_DUMB H fdesc (dumb_framebuffer fb1);
         fb2 = fb1\<lparr>dumb_framebuffer := dumb\<rparr>;
         t1 = t @ [E_ioctl_CREATE_DUMB fdesc (dumb_framebuffer fb1)]
     in if err1 \<noteq> 0 then (At_cleanup err1 fb2 None, t1)
     else
      (let args = registration_args H fdesc mode dumb;
           (err2, bid) = drmModeAddFB2 H args (buffer_id fb2);
           fb3 = fb2\<lparr>buffer_id := bid\<rparr>;
           t2 = t1 @ [E_drmModeAddFB2 args]
       in if err2 \<noteq> 0 then (At_cleanup err2 fb3 None, t2)
          else capture_crtc H fdesc res c mode fb3 t2))"

text \<open>Lines 82-200: the body of \<open>get_framebuffer\<close> up to the label \<open>cleanup\<close>.\<close>

definition get_framebuffer_body ::
  "host \<Rightarrow> string \<Rightarrow> string \<Rightarrow> framebuffer \<Rightarrow> int \<Rightarrow> exit_point \<times> event list" where
  "get_framebuffer_body H dri_device connector_name fb selected_resolution =
    (let fdesc = sys_open H dri_device
     in if fdesc < 0 then (Return_early (- EINVAL H), [E_open dri_device])
     else
      (case drmModeGetResources H fdesc of
         None \<Rightarrow>
           (Return_early (- EINVAL H), [E_open dri_device, E_drmModeGetResources fdesc])
       | Some res \<Rightarrow>
          (let (found, ts) = find_connector H fdesc connector_name (connectors res);
               t = [E_open dri_device, E_drmModeGetResources fdesc] @ ts
           in case found of
                None \<Rightarrow> (Return_early (- EINVAL H), t)
              | Some c \<Rightarrow>
                  if count_modes c \<le> 0 then (Return_early (- EINVAL H), t)
                  else allocate_and_map H fdesc res c
                         (modes c ! select_resolution (DRM_MODE_TYPE_PREFERRED H) c
                                      selected_resolution)
                         fb t)))"

text \<open>Lines 202-210, from the label \<open>cleanup\<close> to the \<open>return\<close>.\<close>

definition cleanup ::
  "int \<Rightarrow> framebuffer \<Rightarrow> drmModeEncoder option \<Rightarrow> event list \<Rightarrow> outcome \<times> event list" where
  "cleanup err fb encoder t =
    (let t1 = t @ (case encoder of None \<Rightarrow> [] | Some e \<Rightarrow> [E_drmModeFreeEncoder e])
     in if err \<noteq> 0
        then (Returned err (fst (release_framebuffer fb)), t1 @ snd (release_framebuffer fb))
        else (Returned err fb, t1))"

text \<open>
  \<open>get_framebuffer\<close>, lines 72-211: the result of the call and the calls it made. An
  early \<open>return\<close> leaves the handle as it was passed in.
\<close>

definition get_framebuffer ::
  "host \<Rightarrow> string \<Rightarrow> string \<Rightarrow> framebuffer \<Rightarrow> int \<Rightarrow> outcome \<times> event list" where
  "get_framebuffer H dri_device connector_name fb selected_resolution =
    (case get_framebuffer_body H dri_device connector_name fb selected_resolution of
       (Return_early err, t) \<Rightarrow> (Returned err fb, t)
     | (At_cleanup err fb' encoder, t) \<Rightarrow> cleanup err fb' encoder t
     | (Undefined_read, t) \<Rightarrow> (Fault, t))"

section \<open>Notions used to state the properties\<close>

text \<open>A mode carries the preferred marker: the test of line 133.\<close>

definition preferred :: "u32 \<Rightarrow> drmModeModeInfo \<Rightarrow> bool" where
  "preferred pref m = (mode_type m AND pref \<noteq> 0)"

text \<open>
  The step of the release order that a call belongs to: 1 for the reacquisition of the
  display-control privilege, 2 for the controller (set it, free the captured state), 3
  for the registered buffer, 4 for the connector, 5 for the dumb buffer, 6 for the
  descriptor, and 0 for a call that is no part of a release.
\<close>

fun release_step :: "event \<Rightarrow> nat" where
  "release_step (E_drmSetMaster _) = 1"
| "release_step (E_drmModeSetCrtc _ _ _ _ _ _ _ _) = 2"
| "release_step (E_drmModeFreeCrtc _) = 2"
| "release_step (E_drmModeGetFB _ _) = 3"
| "release_step (E_drmModeFreeFB _) = 3"
| "release_step (E_drmModeFreeConnector _) = 4"
| "release_step (E_ioctl_DESTROY_DUMB _ _) = 5"
| "release_step (E_close _) = 6"
| "release_step _ = 0"

definition calls_of_step :: "nat \<Rightarrow> event list \<Rightarrow> event list" where
  "calls_of_step k t = filter (\<lambda>e. release_step e = k) t"

text \<open>The calls that create a dumb buffer or register a buffer.\<close>

fun allocates :: "event \<Rightarrow> bool" where
  "allocates (E_ioctl_CREATE_DUMB _ _) = True"
| "allocates (E_drmModeAddFB2 _) = True"
| "allocates _ = False"

text \<open>The call that maps memory.\<close>

fun is_mmap :: "event \<Rightarrow> bool" where
  "is_mmap (E_mmap _ _ _) = True"
| "is_mmap _ = False"

text \<open>
  The body is left at the label \<open>cleanup\<close> with a handle whose dumb buffer is \<open>dumb\<close>,
  \<open>len\<close> is the size of that dumb buffer, and if the mapping of \<open>len\<close> bytes of \<open>d\<close> at
  \<open>off\<close> succeeds then \<open>err\<close> is zero and the address is stored in the handle.
\<close>

definition mapped_exit ::
  "host \<Rightarrow> u64 \<Rightarrow> int \<Rightarrow> u64 \<Rightarrow> drm_mode_create_dumb \<Rightarrow> exit_point \<Rightarrow> bool" where
  "mapped_exit H len d off dumb x =
    (case x of
       At_cleanup err fb enc \<Rightarrow>
         dumb_framebuffer fb = dumb \<and> len = dumb_size dumb
         \<and> (fst (sys_mmap H len d off) \<noteq> MAP_FAILED H \<longrightarrow>
              err = 0 \<and> data fb = fst (sys_mmap H len d off))
     | _ \<Rightarrow> False)"

text \<open>
  The body has reached the end of the success path for the connector \<open>c\<close> and the mode
  \<open>m\<close> on the descriptor \<open>d\<close>: \<open>err\<close> is zero, the three fields are stored, the mapping
  was made and succeeded, and the privilege was dropped.
\<close>

definition fully_acquired ::
  "host \<Rightarrow> int \<Rightarrow> drmModeConnector \<Rightarrow> drmModeModeInfo \<Rightarrow> exit_point \<times> event list \<Rightarrow> bool" where
  "fully_acquired H d c m r =
    (case fst r of
       At_cleanup err fb enc \<Rightarrow>
         err = 0 \<and> fd fb = d \<and> connector fb = Some c \<and> resolution fb = Some m
         \<and> data fb \<noteq> MAP_FAILED H
         \<and> (\<exists>off. E_mmap (dumb_size (dumb_framebuffer fb)) d off \<in> set (snd r)
                \<and> fst (sys_mmap H (dumb_size (dumb_framebuffer fb)) d off) = data fb)
         \<and> E_drmDropMaster d \<in> set (snd r)
     | _ \<Rightarrow> False)"

text \<open>
  The handle with which the label \<open>cleanup\<close> is reached has the descriptor, the connector
  and the resolution of the handle \<open>fb\<close>.
\<close>

definition fields_untouched :: "framebuffer \<Rightarrow> exit_point \<Rightarrow> bool" where
  "fields_untouched fb x =
    (case x of
       At_cleanup err fb1 enc \<Rightarrow>
         fd fb1 = fd fb \<and> connector fb1 = connector fb \<and> resolution fb1 = resolution fb
     | _ \<Rightarrow> True)"

text \<open>The body is left at the label \<open>cleanup\<close>, not by a \<open>return\<close> before it.\<close>

fun reaches_cleanup :: "exit_point \<Rightarrow> bool" where
  "reaches_cleanup (At_cleanup _ _ _) = True"
| "reaches_cleanup _ = False"

text \<open>The call that changes the configuration of a display controller.\<close>

fun sets_controller :: "event \<Rightarrow> bool" where
  "sets_controller (E_drmModeSetCrtc _ _ _ _ _ _ _ _) = True"
| "sets_controller _ = False"

text \<open>The calls that give a resource back.\<close>

fun releases :: "event \<Rightarrow> bool" where
  "releases (E_close _) = True"
| "releases (E_drmModeFreeConnector _) = True"
| "releases (E_ioctl_DESTROY_DUMB _ _) = True"
| "releases (E_drmModeGetFB _ _) = True"
| "releases (E_drmModeFreeFB _) = True"
| "releases (E_drmModeFreeCrtc _) = True"
| "releases _ = False"

text \<open>
  The calls made after the label \<open>cleanup\<close> when the body was left with \<open>x\<close>: the
  encoder is freed and, on an error, the handle is released.
\<close>

definition calls_after_body :: "exit_point \<Rightarrow> event list" where
  "calls_after_body x =
    (case x of
       At_cleanup err fb encoder \<Rightarrow>
         (case encoder of None \<Rightarrow> [] | Some e \<Rightarrow> [E_drmModeFreeEncoder e])
         @ (if err \<noteq> 0 then snd (release_framebuffer fb) else [])
     | _ \<Rightarrow> [])"

section \<open>A concrete device\<close>

text \<open>
  A device with a VGA connector without modes and an HDMI connector with four modes, of
  which the second and the fourth are preferred. The macros have the values of Linux.
\<close>

definition mode_a :: drmModeModeInfo where
  "mode_a = \<lparr>hdisplay = 640, vdisplay = 480, mode_type = 64\<rparr>"

definition mode_b :: drmModeModeInfo where
  "mode_b = \<lparr>hdisplay = 1920, vdisplay = 1080, mode_type = 72\<rparr>"

definition mode_c :: drmModeModeInfo where
  "mode_c = \<lparr>hdisplay = 800, vdisplay = 600, mode_type = 64\<rparr>"

definition mode_d :: drmModeModeInfo where
  "mode_d = \<lparr>hdisplay = 1280, vdisplay = 720, mode_type = 8\<rparr>"

definition vga_connector :: drmModeConnector where
  "vga_connector = \<lparr>connector_id = 40, encoder_id = 0, connector_type = 1,
     connector_type_id = 1, modes = [], encoders = [30]\<rparr>"

definition hdmi_connector :: drmModeConnector where
  "hdmi_connector = \<lparr>connector_id = 41, encoder_id = 31, connector_type = 11,
     connector_type_id = 1, modes = [mode_a, mode_b, mode_c, mode_d], encoders = [31]\<rparr>"

definition old_crtc :: drmModeCrtc where
  "old_crtc = \<lparr>crtc_id = 50, crtc_buffer_id = 7, crtc_mode = mode_a\<rparr>"

definition demo_host :: host where
  "demo_host = \<lparr>EINVAL = 22, DRM_MODE_TYPE_PREFERRED = 8, DRM_FORMAT_ABGR8888 = 875708993,
     MAP_FAILED = - 1,
     sys_open = (\<lambda>path. if path = ''/dev/dri/card0'' then 3 else - 1),
     drmModeGetResources = (\<lambda>d. Some \<lparr>connectors = [40, 41], crtcs = [50]\<rparr>),
     drmModeGetConnectorCurrent =
       (\<lambda>d cid. if cid = 40 then Some vga_connector
                else if cid = 41 then Some hdmi_connector else None),
     ioctl_CREATE_DUMB =
       (\<lambda>d req. (0, req\<lparr>handle := 1, pitch := 4 * width req,
                          dumb_size := ucast (4 * width req * height req)\<rparr>)),
     drmModeAddFB2 = (\<lambda>args old. (0, 60)),
     drmModeGetEncoder = (\<lambda>d eid. Some \<lparr>enc_crtc_id = 50\<rparr>),
     drmModeGetCrtc = (\<lambda>d cid. Some old_crtc),
     drmIoctl_MAP_DUMB = (\<lambda>d h. (0, 4096)),
     sys_mmap = (\<lambda>len d off. (1048576, 0)),
     uninit_handles = (7, 7, 7, 7),
     uninit_pitches = (7, 7, 7, 7),
     uninit_offsets = (7, 7, 7, 7)\<rparr>"

text \<open>
  What the kernel of the concrete device fills in for the mode \<open>mode_d\<close>, and the
  arguments with which the buffer is then registered.
\<close>

definition demo_dumb :: drm_mode_create_dumb where
  "demo_dumb = \<lparr>height = 720, width = 1280, bpp = 32, flags = 0, handle = 1, pitch = 5120,
     dumb_size = 3686400\<rparr>"

definition demo_args :: addfb2_args where
  "demo_args = \<lparr>a_fd = 3, a_width = 1280, a_height = 720, a_pixel_format = 875708993,
     a_handles = (1, 7, 7, 7), a_pitches = (5120, 7, 7, 7), a_offsets = (0, 7, 7, 7),
     a_flags = 0\<rparr>"

text \<open>The same device when the registration of the buffer is refused.\<close>

definition refusing_host :: host where
  "refusing_host = demo_host\<lparr>drmModeAddFB2 := (\<lambda>args old. (- 22, old))\<rparr>"

text \<open>A handle that was never acquired, and the handle of a finished acquisition.\<close>

definition zero_dumb :: drm_mode_create_dumb where
  "zero_dumb = \<lparr>height = 0, width = 0, bpp = 0, flags = 0, handle = 0, pitch = 0,
     dumb_size = 0\<rparr>"

definition zero_framebuffer :: framebuffer where
  "zero_framebuffer = \<lparr>fd = 0, buffer_id = 0, dumb_framebuffer = zero_dumb, crtc = None,
     connector = None, resolution = None, data = 0\<rparr>"

definition live_framebuffer :: framebuffer where
  "live_framebuffer = \<lparr>fd = 3, buffer_id = 60,
     dumb_framebuffer = \<lparr>height = 1080, width = 1920, bpp = 32, flags = 0, handle = 1,
       pitch = 7680, dumb_size = 8294400\<rparr>,
     crtc = Some old_crtc, connector = Some hdmi_connector, resolution = Some mode_b,
     data = 1048576\<rparr>"

section \<open>Connector type names\<close>

lemmas DRM_MODE_CONNECTOR_defs =
  DRM_MODE_CONNECTOR_Unknown_def DRM_MODE_CONNECTOR_VGA_def DRM_MODE_CONNECTOR_DVII_def
  DRM_MODE_CONNECTOR_DVID_def DRM_MODE_CONNECTOR_DVIA_def DRM_MODE_CONNECTOR_Composite_def
  DRM_MODE_CONNECTOR_SVIDEO_def DRM_MODE_CONNECTOR_LVDS_def DRM_MODE_CONNECTOR_Component_def
  DRM_MODE_CONNECTOR_9PinDIN_def DRM_MODE_CONNECTOR_DisplayPort_def
  DRM_MODE_CONNECTOR_HDMIA_def DRM_MODE_CONNECTOR_HDMIB_def DRM_MODE_CONNECTOR_TV_def
  DRM_MODE_CONNECTOR_eDP_def DRM_MODE_CONNECTOR_VIRTUAL_def DRM_MODE_CONNECTOR_DSI_def
  DRM_MODE_CONNECTOR_DPI_def



lemma length_connector_type_names: "length connector_type_names = 18"
  by (simp add: connector_type_names_def)

lemma identifiers_below_18:
  "[0..<18] = [0, 1, 2, 3, 4, 5, 6, 7, 8, 9, 10, 11, 12, 13, 14, 15, 16, 17::nat]"
  by (simp add: upt_rec)

lemma names_on_table:
  "list_all
     (\<lambda>n. connector_type_name (of_nat n) =
            [''unknown'', ''VGA'', ''DVI-I'', ''DVI-D'', ''DVI-A'', ''composite'', ''s-video'',
             ''LVDS'', ''component'', ''9-pin DIN'', ''DP'', ''HDMI-A'', ''HDMI-B'', ''TV'',
             ''eDP'', ''Virtual'', ''DSI'', ''DPI''] ! n
          \<and> tn_type (connector_type_names ! n) = of_nat n)
     [0..<18]"
  unfolding identifiers_below_18
  by (simp add: connector_type_name_def connector_type_names_def DRM_MODE_CONNECTOR_defs)

lemma documented_name_cases:
  assumes "documented_name ty = Some n"
  shows "ty = DRM_MODE_CONNECTOR_VGA \<and> n = ''VGA''
    \<or> ty = DRM_MODE_CONNECTOR_HDMIA \<and> n = ''HDMI-A''
    \<or> ty = DRM_MODE_CONNECTOR_eDP \<and> n = ''eDP''
    \<or> ty = DRM_MODE_CONNECTOR_DisplayPort \<and> n = ''DisplayPort''"
  using assms by (auto simp: documented_name_def split: if_splits)

text \<open>
  Claim C6, as stated, fails. The identifier of the DisplayPort connector type is below
  the size of the table and the vocabulary of the spec documents the name "DisplayPort"
  for it, but \<open>connector_type_name\<close> returns "DP".
\<close>

theorem display_port_is_named_DP:
  "unat DRM_MODE_CONNECTOR_DisplayPort < length connector_type_names
   \<and> documented_name DRM_MODE_CONNECTOR_DisplayPort = Some ''DisplayPort''
   \<and> connector_type_name DRM_MODE_CONNECTOR_DisplayPort = ''DP''
   \<and> connector_type_name DRM_MODE_CONNECTOR_DisplayPort \<noteq> ''DisplayPort''"
  by (simp add: documented_name_def connector_type_name_def connector_type_names_def
      DRM_MODE_CONNECTOR_defs)

text \<open>
  Claim C6, amended. For every connector-type identifier strictly below the size of the
  table, which is 18, the entry of the table at the position of the identifier is the
  entry of that identifier, and \<open>connector_type_name\<close> returns its name: "unknown",
  "VGA", "DVI-I", "DVI-D", "DVI-A", "composite", "s-video", "LVDS", "component",
  "9-pin DIN", "DP", "HDMI-A", "HDMI-B", "TV", "eDP", "Virtual", "DSI", "DPI" for the
  identifiers 0 to 17. This is the name that the vocabulary of the spec documents for the
  identifier, except for the DisplayPort type, which is named "DP". For every identifier
  at or beyond the size of the table it returns the sentinel "INVALID".
\<close>

theorem connector_type_name_table:
  "length connector_type_names = 18
   \<and> (unat ty < 18 \<longrightarrow>
        connector_type_name ty =
          [''unknown'', ''VGA'', ''DVI-I'', ''DVI-D'', ''DVI-A'', ''composite'', ''s-video'',
           ''LVDS'', ''component'', ''9-pin DIN'', ''DP'', ''HDMI-A'', ''HDMI-B'', ''TV'',
           ''eDP'', ''Virtual'', ''DSI'', ''DPI''] ! unat ty
        \<and> tn_type (connector_type_names ! unat ty) = ty)
   \<and> (\<forall>n. documented_name ty = Some n \<and> ty \<noteq> DRM_MODE_CONNECTOR_DisplayPort \<longrightarrow>
          connector_type_name ty = n)
   \<and> (18 \<le> unat ty \<longrightarrow> connector_type_name ty = ''INVALID'')"
proof (intro conjI impI allI)
  show "length connector_type_names = 18" by (rule length_connector_type_names)
next
  assume lt: "unat ty < 18"
  then have "unat ty \<in> set [0..<18]" by simp
  with names_on_table
  have "connector_type_name (of_nat (unat ty)) =
          [''unknown'', ''VGA'', ''DVI-I'', ''DVI-D'', ''DVI-A'', ''composite'', ''s-video'',
           ''LVDS'', ''component'', ''9-pin DIN'', ''DP'', ''HDMI-A'', ''HDMI-B'', ''TV'',
           ''eDP'', ''Virtual'', ''DSI'', ''DPI''] ! unat ty
        \<and> tn_type (connector_type_names ! unat ty) = of_nat (unat ty)"
    unfolding list_all_iff by blast
  then show "connector_type_name ty =
          [''unknown'', ''VGA'', ''DVI-I'', ''DVI-D'', ''DVI-A'', ''composite'', ''s-video'',
           ''LVDS'', ''component'', ''9-pin DIN'', ''DP'', ''HDMI-A'', ''HDMI-B'', ''TV'',
           ''eDP'', ''Virtual'', ''DSI'', ''DPI''] ! unat ty"
    and "tn_type (connector_type_names ! unat ty) = ty"
    by simp_all
next
  fix n
  assume "documented_name ty = Some n \<and> ty \<noteq> DRM_MODE_CONNECTOR_DisplayPort"
  with documented_name_cases [of ty n]
  show "connector_type_name ty = n"
    by (auto simp: connector_type_name_def connector_type_names_def DRM_MODE_CONNECTOR_defs)
next
  assume "18 \<le> unat ty"
  then show "connector_type_name ty = ''INVALID''"
    by (simp add: connector_type_name_def length_connector_type_names)
qed

theorem connector_type_name_table_witness:
  "unat (11 :: u32) < 18 \<and> connector_type_name 11 = ''HDMI-A''
   \<and> tn_type (connector_type_names ! 11) = 11
   \<and> documented_name 11 = Some ''HDMI-A'' \<and> (11 :: u32) \<noteq> DRM_MODE_CONNECTOR_DisplayPort
   \<and> 18 \<le> unat (18 :: u32) \<and> connector_type_name 18 = ''INVALID''"
proof -
  have d: "documented_name 11 = Some ''HDMI-A''"
    "(11 :: u32) \<noteq> DRM_MODE_CONNECTOR_DisplayPort"
    by (simp_all add: documented_name_def DRM_MODE_CONNECTOR_defs)
  from connector_type_name_table [of 11] connector_type_name_table [of 18] d
  show ?thesis by simp
qed

section \<open>Release of a handle\<close>

text \<open>
  Claim C2, as stated, fails. Releasing the handle of a finished acquisition a second time
  repeats every call of the first release: the controller is set and its state freed
  again, the buffer, the connector and the dumb buffer are freed again and the descriptor
  is closed again. The first release has only reset \<open>resolution\<close>.
\<close>

theorem release_not_idempotent:
  "snd (release_framebuffer (fst (release_framebuffer live_framebuffer))) =
     [E_drmSetMaster 3, E_drmModeSetCrtc 3 50 7 0 0 (Some 41) 1 None,
      E_drmModeFreeCrtc old_crtc, E_drmModeGetFB 3 60, E_drmModeFreeFB 60,
      E_drmModeFreeConnector hdmi_connector,
      E_ioctl_DESTROY_DUMB 3 (dumb_framebuffer live_framebuffer), E_close 3]
   \<and> E_close 3 \<in> set (snd (release_framebuffer live_framebuffer))"
  by (simp add: release_framebuffer_def live_framebuffer_def hdmi_connector_def old_crtc_def)

text \<open>
  Claim C2, amended. On a handle whose descriptor is zero, as in a zeroed or
  never-acquired handle, \<open>release_framebuffer\<close> makes no call and leaves the handle as it
  is; and one call of \<open>release_framebuffer\<close> never makes the same call twice.
\<close>

theorem release_zero_descriptor:
  "(fd fb = 0 \<longrightarrow> release_framebuffer fb = (fb, []))
   \<and> distinct (snd (release_framebuffer fb))"
  by (auto simp: release_framebuffer_def split: option.splits)

theorem release_zero_descriptor_witness:
  "fd zero_framebuffer = 0
   \<and> release_framebuffer zero_framebuffer = (zero_framebuffer, [])
   \<and> distinct (snd (release_framebuffer live_framebuffer))"
  using release_zero_descriptor [of zero_framebuffer] release_zero_descriptor [of live_framebuffer]
  by (simp add: zero_framebuffer_def)

text \<open>
  Claim C3, as stated, fails. With a zero descriptor nothing is released although a
  registered buffer and a dumb buffer exist; and the call that sets the controller back
  passes the mode held in \<open>resolution\<close>, which here is not the mode the controller had
  before.
\<close>

theorem release_order_counterexample:
  "buffer_id (live_framebuffer\<lparr>fd := 0\<rparr>) \<noteq> 0
   \<and> handle (dumb_framebuffer (live_framebuffer\<lparr>fd := 0\<rparr>)) \<noteq> 0
   \<and> snd (release_framebuffer (live_framebuffer\<lparr>fd := 0\<rparr>)) = []
   \<and> crtc live_framebuffer = Some old_crtc
   \<and> crtc_mode old_crtc = mode_a
   \<and> calls_of_step 2 (snd (release_framebuffer live_framebuffer)) =
       [E_drmModeSetCrtc 3 50 7 0 0 (Some 41) 1 (Some mode_b), E_drmModeFreeCrtc old_crtc]
   \<and> mode_b \<noteq> mode_a"
  by (simp add: release_framebuffer_def live_framebuffer_def hdmi_connector_def old_crtc_def
      calls_of_step_def mode_a_def mode_b_def)

text \<open>
  Claim C3, amended. With a zero descriptor \<open>release_framebuffer\<close> makes no call. With a
  nonzero descriptor it makes only calls of the six steps, in the order of the steps:
  (a) the display-control privilege is reacquired; (b) if controller state was captured,
  the controller is set to the captured buffer at position (0, 0) with the connector and
  the mode of the handle, and the captured state is freed; (c) calls for the registered
  buffer are made exactly when its identifier is not zero; (d) if a connector is held, it
  is freed; (e) calls for the dumb buffer are made exactly when its handle is not zero;
  (f) the descriptor is closed. What the calls of the steps (c) and (e) are, and what
  they achieve, is left open.
\<close>

theorem release_steps_in_order:
  "sorted (map release_step (snd (release_framebuffer fb)))
   \<and> (fd fb = 0 \<longrightarrow> snd (release_framebuffer fb) = [])
   \<and> (fd fb \<noteq> 0 \<longrightarrow>
        (\<forall>e \<in> set (snd (release_framebuffer fb)). release_step e \<noteq> 0)
      \<and> calls_of_step 1 (snd (release_framebuffer fb)) = [E_drmSetMaster (fd fb)]
      \<and> calls_of_step 2 (snd (release_framebuffer fb)) =
          (case crtc fb of
             None \<Rightarrow> []
           | Some cr \<Rightarrow>
               [E_drmModeSetCrtc (fd fb) (crtc_id cr) (crtc_buffer_id cr) 0 0
                  (map_option connector_id (connector fb)) 1 (resolution fb),
                E_drmModeFreeCrtc cr])
      \<and> (calls_of_step 3 (snd (release_framebuffer fb)) = []) = (buffer_id fb = 0)
      \<and> calls_of_step 4 (snd (release_framebuffer fb)) =
          (case connector fb of None \<Rightarrow> [] | Some c \<Rightarrow> [E_drmModeFreeConnector c])
      \<and> (calls_of_step 5 (snd (release_framebuffer fb)) = [])
          = (handle (dumb_framebuffer fb) = 0)
      \<and> calls_of_step 6 (snd (release_framebuffer fb)) = [E_close (fd fb)])"
  by (auto simp: release_framebuffer_def calls_of_step_def split: option.splits)

theorem release_steps_in_order_witness:
  "fd live_framebuffer \<noteq> 0
   \<and> map release_step (snd (release_framebuffer live_framebuffer)) = [1, 2, 2, 3, 3, 4, 5, 6]
   \<and> calls_of_step 6 (snd (release_framebuffer live_framebuffer)) = [E_close 3]
   \<and> fd zero_framebuffer = 0 \<and> snd (release_framebuffer zero_framebuffer) = []"
  using release_steps_in_order [of live_framebuffer] release_steps_in_order [of zero_framebuffer]
  by (simp add: release_framebuffer_def live_framebuffer_def zero_framebuffer_def)

section \<open>Mode selection\<close>

lemma scan_modes_snoc:
  "scan_modes pref (ms @ [m]) i res =
     (if preferred pref m then Some (i + length ms) else scan_modes pref ms i res)"
  by (induction ms arbitrary: i res) (simp_all add: preferred_def)

lemma scan_modes_none:
  "(\<forall>m \<in> set ms. \<not> preferred pref m) \<Longrightarrow> scan_modes pref ms i res = res"
  by (induction ms arbitrary: i res) (simp_all add: preferred_def)

lemma scan_modes_last:
  assumes "\<exists>m \<in> set ms. preferred pref m"
  shows "\<exists>r < length ms. scan_modes pref ms 0 res = Some r \<and> preferred pref (ms ! r)
           \<and> (\<forall>j. r < j \<and> j < length ms \<longrightarrow> \<not> preferred pref (ms ! j))"
  using assms
proof (induction ms rule: rev_induct)
  case Nil
  then show ?case by simp
next
  case (snoc m ms)
  show ?case
  proof (cases "preferred pref m")
    case True
    then have "scan_modes pref (ms @ [m]) 0 res = Some (length ms)"
      by (simp add: scan_modes_snoc)
    with True show ?thesis
      by (intro exI [of _ "length ms"]) auto
  next
    case False
    with snoc.prems have "\<exists>m \<in> set ms. preferred pref m" by auto
    from snoc.IH [OF this] obtain r where r: "r < length ms"
      "scan_modes pref ms 0 res = Some r" "preferred pref (ms ! r)"
      "\<forall>j. r < j \<and> j < length ms \<longrightarrow> \<not> preferred pref (ms ! j)"
      by blast
    have "\<forall>j. r < j \<and> j < length (ms @ [m]) \<longrightarrow> \<not> preferred pref ((ms @ [m]) ! j)"
    proof (intro allI impI)
      fix j assume j: "r < j \<and> j < length (ms @ [m])"
      show "\<not> preferred pref ((ms @ [m]) ! j)"
      proof (cases "j < length ms")
        case True
        with r(4) j show ?thesis by (simp add: nth_append)
      next
        case False
        with j have "j = length ms" by simp
        with \<open>\<not> preferred pref m\<close> show ?thesis by simp
      qed
    qed
    with r False show ?thesis
      by (intro exI [of _ r]) (simp add: scan_modes_snoc nth_append)
  qed
qed

text \<open>
  Claim C4. On a connector with at least one mode the selected index is in range. If the
  requested index is in range, it is the selected one, whatever the markers. Otherwise,
  if some mode carries the preferred marker, the selected mode carries it and no later
  mode does: the last preferred mode wins. If no mode carries the marker, the first mode
  is selected.
\<close>

theorem select_resolution_policy:
  assumes "modes c \<noteq> []"
  shows "select_resolution pref c sel < length (modes c)
    \<and> (0 \<le> sel \<and> sel < int (length (modes c)) \<longrightarrow> select_resolution pref c sel = nat sel)
    \<and> (\<not> (0 \<le> sel \<and> sel < int (length (modes c))) \<longrightarrow>
         (if \<exists>m \<in> set (modes c). preferred pref m
          then preferred pref (modes c ! select_resolution pref c sel)
             \<and> (\<forall>j. select_resolution pref c sel < j \<and> j < length (modes c)
                    \<longrightarrow> \<not> preferred pref (modes c ! j))
          else select_resolution pref c sel = 0))"
proof (cases "0 \<le> sel \<and> sel < int (length (modes c))")
  case True
  then show ?thesis by (auto simp: select_resolution_def count_modes_def nat_less_iff)
next
  case out: False
  show ?thesis
  proof (cases "\<exists>m \<in> set (modes c). preferred pref m")
    case True
    from scan_modes_last [OF True, of None] obtain r where r: "r < length (modes c)"
      "scan_modes pref (modes c) 0 None = Some r" "preferred pref (modes c ! r)"
      "\<forall>j. r < j \<and> j < length (modes c) \<longrightarrow> \<not> preferred pref (modes c ! j)"
      by blast
    from out r(2) have "select_resolution pref c sel = r"
      by (auto simp: select_resolution_def count_modes_def)
    with out True r show ?thesis by auto
  next
    case False
    then have "scan_modes pref (modes c) 0 None = None"
      by (simp add: scan_modes_none)
    with out have "select_resolution pref c sel = 0"
      by (auto simp: select_resolution_def count_modes_def)
    with out False assms show ?thesis by auto
  qed
qed

theorem select_resolution_policy_witness:
  "modes hdmi_connector \<noteq> []
   \<and> select_resolution 8 hdmi_connector (- 1) = 3
   \<and> select_resolution 8 hdmi_connector 2 = 2
   \<and> select_resolution 8 (hdmi_connector\<lparr>modes := [mode_a, mode_c]\<rparr>) 5 = 0"
proof -
  have ne: "modes hdmi_connector \<noteq> []" by (simp add: hdmi_connector_def)
  have ne2: "modes (hdmi_connector\<lparr>modes := [mode_a, mode_c]\<rparr>) \<noteq> []" by simp
  note a = select_resolution_policy [OF ne, of 8 "- 1"]
  note b = select_resolution_policy [OF ne, of 8 2]
  note c = select_resolution_policy [OF ne2, of 8 5]
  have "select_resolution 8 hdmi_connector (- 1) = 3"
    by (simp add: select_resolution_def count_modes_def hdmi_connector_def mode_a_def
        mode_b_def mode_c_def mode_d_def)
  moreover have "select_resolution 8 hdmi_connector 2 = 2"
    using b by (simp add: hdmi_connector_def)
  moreover have "select_resolution 8 (hdmi_connector\<lparr>modes := [mode_a, mode_c]\<rparr>) 5 = 0"
    using c by (simp add: preferred_def mode_a_def mode_c_def)
  ultimately show ?thesis using ne a by simp
qed

section \<open>The calls of an acquisition\<close>

lemma find_connector_calls:
  "e \<in> set (snd (find_connector H d n ids)) \<Longrightarrow>
     (\<exists>cid. e = E_drmModeGetConnectorCurrent d cid) \<or> (\<exists>c. e = E_drmModeFreeConnector c)"
  by (induction ids) (auto split: option.splits prod.splits if_splits)

lemma get_framebuffer_body_cases:
  obtains
    (open_failed) "sys_open H dev < 0"
      "get_framebuffer_body H dev name fb sel = (Return_early (- EINVAL H), [E_open dev])"
  | (no_resources) "0 \<le> sys_open H dev" "drmModeGetResources H (sys_open H dev) = None"
      "get_framebuffer_body H dev name fb sel =
         (Return_early (- EINVAL H), [E_open dev, E_drmModeGetResources (sys_open H dev)])"
  | (no_connector) res where "0 \<le> sys_open H dev"
      "drmModeGetResources H (sys_open H dev) = Some res"
      "fst (find_connector H (sys_open H dev) name (connectors res)) = None"
      "get_framebuffer_body H dev name fb sel =
         (Return_early (- EINVAL H),
          [E_open dev, E_drmModeGetResources (sys_open H dev)]
          @ snd (find_connector H (sys_open H dev) name (connectors res)))"
  | (no_modes) res c where "0 \<le> sys_open H dev"
      "drmModeGetResources H (sys_open H dev) = Some res"
      "fst (find_connector H (sys_open H dev) name (connectors res)) = Some c"
      "count_modes c \<le> 0"
      "get_framebuffer_body H dev name fb sel =
         (Return_early (- EINVAL H),
          [E_open dev, E_drmModeGetResources (sys_open H dev)]
          @ snd (find_connector H (sys_open H dev) name (connectors res)))"
  | (selected) res c where "0 \<le> sys_open H dev"
      "drmModeGetResources H (sys_open H dev) = Some res"
      "fst (find_connector H (sys_open H dev) name (connectors res)) = Some c"
      "0 < count_modes c"
      "get_framebuffer_body H dev name fb sel =
         allocate_and_map H (sys_open H dev) res c
           (modes c ! select_resolution (DRM_MODE_TYPE_PREFERRED H) c sel) fb
           ([E_open dev, E_drmModeGetResources (sys_open H dev)]
            @ snd (find_connector H (sys_open H dev) name (connectors res)))"
proof (cases "sys_open H dev < 0")
  case True
  then show ?thesis using open_failed by (simp add: get_framebuffer_body_def)
next
  case nonneg: False
  show ?thesis
  proof (cases "drmModeGetResources H (sys_open H dev)")
    case None
    with nonneg show ?thesis using no_resources by (simp add: get_framebuffer_body_def)
  next
    case (Some res)
    show ?thesis
    proof (cases "fst (find_connector H (sys_open H dev) name (connectors res))")
      case None
      with nonneg Some show ?thesis using no_connector [of res]
        by (simp add: get_framebuffer_body_def split_beta Let_def)
    next
      case found: (Some c)
      show ?thesis
      proof (cases "count_modes c \<le> 0")
        case True
        with nonneg Some found show ?thesis using no_modes [of res c]
          by (simp add: get_framebuffer_body_def split_beta Let_def)
      next
        case False
        with nonneg Some found show ?thesis using selected [of res c]
          by (simp add: get_framebuffer_body_def split_beta Let_def)
      qed
    qed
  qed
qed

lemma get_framebuffer_trace:
  "snd (get_framebuffer H dev name fb sel) =
     snd (get_framebuffer_body H dev name fb sel)
     @ calls_after_body (fst (get_framebuffer_body H dev name fb sel))"
  by (cases "get_framebuffer_body H dev name fb sel")
    (auto simp: get_framebuffer_def cleanup_def calls_after_body_def Let_def
      split: exit_point.splits option.splits)

lemma get_framebuffer_early:
  "get_framebuffer_body H dev name fb sel = (Return_early err, t) \<Longrightarrow>
     get_framebuffer H dev name fb sel = (Returned err fb, t)"
  by (simp add: get_framebuffer_def)

lemma candidate_name_vga: "candidate_name vga_connector = ''VGA-1''"
  by (simp add: candidate_name_def vga_connector_def connector_type_name_def
      connector_type_names_def decimal.simps)

lemma candidate_name_hdmi: "candidate_name hdmi_connector = ''HDMI-A-1''"
  by (simp add: candidate_name_def hdmi_connector_def connector_type_name_def
      connector_type_names_def decimal.simps)

section \<open>A connector without modes\<close>

text \<open>
  Claim C5. When the device opens, its resources are read and the connector that matches
  the name reports zero modes, \<open>get_framebuffer\<close> returns \<open>-EINVAL\<close>, the handle is as it
  was passed in, and no call has created a dumb buffer or registered a buffer.
\<close>

theorem zero_modes_invalid_argument:
  assumes "0 \<le> sys_open H dev"
    and "drmModeGetResources H (sys_open H dev) = Some res"
    and "fst (find_connector H (sys_open H dev) name (connectors res)) = Some c"
    and "count_modes c = 0"
  shows "fst (get_framebuffer H dev name fb sel) = Returned (- EINVAL H) fb
    \<and> (\<forall>e \<in> set (snd (get_framebuffer H dev name fb sel)). \<not> allocates e)"
proof -
  let ?ts = "snd (find_connector H (sys_open H dev) name (connectors res))"
  have body: "get_framebuffer_body H dev name fb sel =
      (Return_early (- EINVAL H), [E_open dev, E_drmModeGetResources (sys_open H dev)] @ ?ts)"
    using assms by (cases rule: get_framebuffer_body_cases [of H dev name fb sel]) simp_all
  have "\<not> allocates e" if "e \<in> set ?ts" for e
    using find_connector_calls [OF that] by auto
  with get_framebuffer_early [OF body] show ?thesis by auto
qed

theorem zero_modes_invalid_argument_witness:
  "0 \<le> sys_open demo_host ''/dev/dri/card0''
   \<and> fst (find_connector demo_host 3 ''VGA-1'' [40, 41]) = Some vga_connector
   \<and> count_modes vga_connector = 0
   \<and> fst (get_framebuffer demo_host ''/dev/dri/card0'' ''VGA-1'' zero_framebuffer 0)
       = Returned (- 22) zero_framebuffer
   \<and> filter allocates
        (snd (get_framebuffer demo_host ''/dev/dri/card0'' ''VGA-1'' zero_framebuffer 0)) = []"
proof -
  have a: "0 \<le> sys_open demo_host ''/dev/dri/card0''" by (simp add: demo_host_def)
  have o: "sys_open demo_host ''/dev/dri/card0'' = 3" by (simp add: demo_host_def)
  have b: "drmModeGetResources demo_host (sys_open demo_host ''/dev/dri/card0'')
             = Some \<lparr>connectors = [40, 41], crtcs = [50]\<rparr>"
    by (simp add: demo_host_def)
  have c: "fst (find_connector demo_host (sys_open demo_host ''/dev/dri/card0'') ''VGA-1''
             (connectors \<lparr>connectors = [40, 41], crtcs = [50]\<rparr>)) = Some vga_connector"
    by (simp add: demo_host_def strncmp_eq_def candidate_name_vga)
  have d: "count_modes vga_connector = 0" by (simp add: count_modes_def vga_connector_def)
  from zero_modes_invalid_argument [OF a b c d, of zero_framebuffer 0] a c d o
  show ?thesis by (simp add: demo_host_def filter_empty_conv)
qed

section \<open>Acquisition does not set the controller\<close>

lemma map_buffer_no_set:
  assumes "\<forall>e \<in> set t. \<not> sets_controller e"
  shows "\<forall>e \<in> set (snd (map_buffer H d c m enc fb t)). \<not> sets_controller e"
  using assms
  by (auto simp: map_buffer_def Let_def split: prod.splits if_splits)

lemma capture_crtc_no_set:
  assumes "\<forall>e \<in> set t. \<not> sets_controller e"
  shows "\<forall>e \<in> set (snd (capture_crtc H d res c m fb t)). \<not> sets_controller e"
  using assms
  by (auto simp: capture_crtc_def Let_def split: option.splits
      dest!: map_buffer_no_set [rule_format, rotated])

lemma allocate_and_map_no_set:
  assumes "\<forall>e \<in> set t. \<not> sets_controller e"
  shows "\<forall>e \<in> set (snd (allocate_and_map H d res c m fb t)). \<not> sets_controller e"
  using assms
  by (auto simp: allocate_and_map_def Let_def split: prod.splits
      dest!: capture_crtc_no_set [rule_format, rotated])

text \<open>
  Claim C9. No call made by the body of \<open>get_framebuffer\<close>, up to the label \<open>cleanup\<close>,
  sets a controller: the controller state is only read. The calls of a run are those of
  the body followed by the freeing of the encoder and, on an error, by the calls of
  \<open>release_framebuffer\<close>; a run that returns zero makes no call that sets a controller.
\<close>

theorem acquisition_does_not_set_controller:
  "(\<forall>e \<in> set (snd (get_framebuffer_body H dev name fb sel)). \<not> sets_controller e)
   \<and> snd (get_framebuffer H dev name fb sel) =
       snd (get_framebuffer_body H dev name fb sel)
       @ calls_after_body (fst (get_framebuffer_body H dev name fb sel))
   \<and> (\<forall>fb'. fst (get_framebuffer H dev name fb sel) = Returned 0 fb' \<longrightarrow>
        (\<forall>e \<in> set (snd (get_framebuffer H dev name fb sel)). \<not> sets_controller e))"
proof -
  have fc: "\<not> sets_controller e" if "e \<in> set (snd (find_connector H d n ids))" for e d n ids
    using find_connector_calls [OF that] by auto
  have body: "\<forall>e \<in> set (snd (get_framebuffer_body H dev name fb sel)). \<not> sets_controller e"
  proof (cases rule: get_framebuffer_body_cases [of H dev name fb sel])
    case (selected res c)
    show ?thesis
      unfolding selected(5)
      by (rule allocate_and_map_no_set) (auto dest: fc)
  qed (auto dest: fc)
  have ok: "\<forall>e \<in> set (snd (get_framebuffer H dev name fb sel)). \<not> sets_controller e"
    if "fst (get_framebuffer H dev name fb sel) = Returned 0 fb'" for fb'
  proof -
    have "\<forall>e \<in> set (calls_after_body (fst (get_framebuffer_body H dev name fb sel))).
            \<not> sets_controller e"
      using that
      by (cases "get_framebuffer_body H dev name fb sel")
        (auto simp: get_framebuffer_def cleanup_def calls_after_body_def Let_def
          split: exit_point.splits option.splits if_splits)
    with body show ?thesis by (auto simp: get_framebuffer_trace)
  qed
  from body ok show ?thesis by (simp add: get_framebuffer_trace)
qed

text \<open>The run of a successful acquisition on the concrete device.\<close>

lemma hdmi_fields:
  "modes hdmi_connector = [mode_a, mode_b, mode_c, mode_d]"
  "encoder_id hdmi_connector = 31"
  "count_modes hdmi_connector = 4"
  by (simp_all add: hdmi_connector_def count_modes_def)

lemma select_auto_hdmi: "select_resolution 8 hdmi_connector (- 1) = 3"
  by (simp add: select_resolution_def hdmi_fields mode_a_def mode_b_def mode_c_def mode_d_def)

lemma find_hdmi:
  "find_connector (H\<lparr>drmModeGetConnectorCurrent := drmModeGetConnectorCurrent demo_host\<rparr>)
     3 ''HDMI-A-1'' [40, 41] =
     (Some hdmi_connector,
      [E_drmModeGetConnectorCurrent 3 40, E_drmModeFreeConnector vga_connector,
       E_drmModeGetConnectorCurrent 3 41])"
  by (simp add: demo_host_def strncmp_eq_def candidate_name_vga candidate_name_hdmi)

lemma demo_allocate:
  "allocate_and_map demo_host 3 res hdmi_connector mode_d zero_framebuffer t =
     (At_cleanup 0
        \<lparr>fd = 3, buffer_id = 60, dumb_framebuffer = demo_dumb, crtc = Some old_crtc,
           connector = Some hdmi_connector, resolution = Some mode_d, data = 1048576\<rparr>
        (Some \<lparr>enc_crtc_id = 50\<rparr>),
      t @ [E_ioctl_CREATE_DUMB 3 (zero_dumb\<lparr>height := 720, width := 1280, bpp := 32\<rparr>),
           E_drmModeAddFB2 demo_args, E_drmModeGetEncoder 3 31, E_drmModeGetCrtc 3 50,
           E_drmIoctl_MAP_DUMB 3 1, E_mmap 3686400 3 4096, E_drmDropMaster 3])"
  by (simp add: allocate_and_map_def capture_crtc_def map_buffer_def demo_host_def
      dumb_request_def registration_args_def hdmi_fields zero_framebuffer_def zero_dumb_def mode_d_def demo_dumb_def demo_args_def)

lemma demo_run:
  "get_framebuffer demo_host ''/dev/dri/card0'' ''HDMI-A-1'' zero_framebuffer (- 1) =
     (Returned 0
        \<lparr>fd = 3, buffer_id = 60, dumb_framebuffer = demo_dumb, crtc = Some old_crtc,
           connector = Some hdmi_connector, resolution = Some mode_d, data = 1048576\<rparr>,
      [E_open ''/dev/dri/card0'', E_drmModeGetResources 3,
       E_drmModeGetConnectorCurrent 3 40, E_drmModeFreeConnector vga_connector,
       E_drmModeGetConnectorCurrent 3 41,
       E_ioctl_CREATE_DUMB 3 (zero_dumb\<lparr>height := 720, width := 1280, bpp := 32\<rparr>),
       E_drmModeAddFB2 demo_args, E_drmModeGetEncoder 3 31, E_drmModeGetCrtc 3 50,
       E_drmIoctl_MAP_DUMB 3 1, E_mmap 3686400 3 4096, E_drmDropMaster 3,
       E_drmModeFreeEncoder \<lparr>enc_crtc_id = 50\<rparr>])"
proof -
  have f: "find_connector demo_host 3 ''HDMI-A-1'' [40, 41] =
     (Some hdmi_connector,
      [E_drmModeGetConnectorCurrent 3 40, E_drmModeFreeConnector vga_connector,
       E_drmModeGetConnectorCurrent 3 41])"
    using find_hdmi [of demo_host] by simp
  have o: "sys_open demo_host ''/dev/dri/card0'' = 3"
    "drmModeGetResources demo_host 3 = Some \<lparr>connectors = [40, 41], crtcs = [50]\<rparr>"
    "DRM_MODE_TYPE_PREFERRED demo_host = 8"
    by (simp_all add: demo_host_def)
  have body: "get_framebuffer_body demo_host ''/dev/dri/card0'' ''HDMI-A-1'' zero_framebuffer (- 1)
    = allocate_and_map demo_host 3 \<lparr>connectors = [40, 41], crtcs = [50]\<rparr> hdmi_connector
        mode_d zero_framebuffer
        [E_open ''/dev/dri/card0'', E_drmModeGetResources 3,
         E_drmModeGetConnectorCurrent 3 40, E_drmModeFreeConnector vga_connector,
         E_drmModeGetConnectorCurrent 3 41]"
    by (simp add: get_framebuffer_body_def o f hdmi_fields select_auto_hdmi
        del: find_connector.simps)
  show ?thesis
    by (simp add: get_framebuffer_def body demo_allocate cleanup_def)
qed

theorem acquisition_does_not_set_controller_witness:
  "fst (get_framebuffer demo_host ''/dev/dri/card0'' ''HDMI-A-1'' zero_framebuffer (- 1))
     = Returned 0
        \<lparr>fd = 3, buffer_id = 60, dumb_framebuffer = demo_dumb, crtc = Some old_crtc,
           connector = Some hdmi_connector, resolution = Some mode_d, data = 1048576\<rparr>
   \<and> filter sets_controller
        (snd (get_framebuffer demo_host ''/dev/dri/card0'' ''HDMI-A-1'' zero_framebuffer (- 1)))
      = []"
  using acquisition_does_not_set_controller
    [of demo_host "''/dev/dri/card0''" "''HDMI-A-1''" zero_framebuffer "- 1",
      THEN conjunct2, THEN conjunct2]
  by (simp add: demo_run)

section \<open>What release keeps\<close>

lemma release_keeps:
  "fd (fst (release_framebuffer fb)) = fd fb"
  "connector (fst (release_framebuffer fb)) = connector fb"
  "dumb_framebuffer (fst (release_framebuffer fb)) = dumb_framebuffer fb"
  "data (fst (release_framebuffer fb)) = data fb"
  "buffer_id (fst (release_framebuffer fb)) = buffer_id fb"
  "crtc (fst (release_framebuffer fb)) = crtc fb"
  by (simp_all add: release_framebuffer_def split: option.splits)

lemma release_resolution:
  "resolution (fst (release_framebuffer fb)) =
     (if fd fb \<noteq> 0 \<and> connector fb \<noteq> None then None else resolution fb)"
  by (simp add: release_framebuffer_def split: option.splits)

lemma release_calls:
  "e \<in> set (snd (release_framebuffer fb)) \<Longrightarrow> release_step e \<noteq> 0"
  by (auto simp: release_framebuffer_def split: option.splits if_splits)

lemma calls_after_body_steps:
  "e \<in> set (calls_after_body x) \<Longrightarrow>
     (\<exists>enc. e = E_drmModeFreeEncoder enc) \<or> release_step e \<noteq> 0"
  by (auto simp: calls_after_body_def dest: release_calls
      split: exit_point.splits option.splits if_splits)

lemma get_framebuffer_result:
  "fst (get_framebuffer H dev name fb sel) =
     (case fst (get_framebuffer_body H dev name fb sel) of
        Return_early err \<Rightarrow> Returned err fb
      | At_cleanup err fb1 enc \<Rightarrow>
          Returned err (if err \<noteq> 0 then fst (release_framebuffer fb1) else fb1)
      | Undefined_read \<Rightarrow> Fault)"
  by (cases "get_framebuffer_body H dev name fb sel")
    (auto simp: get_framebuffer_def cleanup_def Let_def split: exit_point.splits)

section \<open>The size of the mapping\<close>

lemma map_buffer_mmap:
  assumes "E_mmap len d' off \<in> set (snd (map_buffer H d c m enc fb t))"
    and "\<forall>e \<in> set t. \<not> is_mmap e"
  shows "mapped_exit H len d' off (dumb_framebuffer fb) (fst (map_buffer H d c m enc fb t))"
  using assms
  by (auto simp: map_buffer_def mapped_exit_def Let_def split: prod.splits if_splits)

text \<open>The ways through the lookup of the controller and through the allocation.\<close>

lemma capture_crtc_cases:
  obtains
    (undefined_read) t1 where
      "capture_crtc H d res c m fb t = (Undefined_read, t @ t1)"
      "\<forall>e \<in> set t1. \<exists>x. e = E_drmModeGetEncoder d x"
  | (not_found) fb1 enc t1 where
      "capture_crtc H d res c m fb t = (At_cleanup (- EINVAL H) fb1 enc, t @ t1)"
      "fb1 = fb \<or> fb1 = fb\<lparr>crtc := None\<rparr>"
      "\<forall>e \<in> set t1. (\<exists>x. e = E_drmModeGetEncoder d x) \<or> (\<exists>x. e = E_drmModeGetCrtc d x)"
  | (found) enc cr eid cid where
      "capture_crtc H d res c m fb t =
         map_buffer H d c m enc (fb\<lparr>crtc := Some cr\<rparr>)
           (t @ [E_drmModeGetEncoder d eid, E_drmModeGetCrtc d cid])"
proof (cases "encoder_id c = 0 \<and> encoders c = []")
  case True
  then have "capture_crtc H d res c m fb t = (Undefined_read, t @ [])"
    by (simp add: capture_crtc_def)
  from undefined_read [OF this] show ?thesis by simp
next
  case ne: False
  define eid where "eid = (if encoder_id c \<noteq> 0 then encoder_id c else encoders c ! 0)"
  have step1: "capture_crtc H d res c m fb t =
    (case drmModeGetEncoder H d eid of
       None \<Rightarrow> (At_cleanup (- EINVAL H) fb None, t @ [E_drmModeGetEncoder d eid])
     | Some encoder \<Rightarrow>
         if enc_crtc_id encoder = 0 \<and> crtcs res = []
         then (Undefined_read, t @ [E_drmModeGetEncoder d eid])
         else
          (let cid = (if enc_crtc_id encoder \<noteq> 0 then enc_crtc_id encoder else crtcs res ! 0);
               fb1 = fb\<lparr>crtc := drmModeGetCrtc H d cid\<rparr>;
               t2 = (t @ [E_drmModeGetEncoder d eid]) @ [E_drmModeGetCrtc d cid]
           in if crtc fb1 = None
              then (At_cleanup (- EINVAL H) fb1 (Some encoder), t2)
              else map_buffer H d c m encoder fb1 t2))"
    using ne unfolding capture_crtc_def eid_def by (simp only: Let_def if_False)
  show ?thesis
  proof (cases "drmModeGetEncoder H d eid")
    case None
    then have "capture_crtc H d res c m fb t =
        (At_cleanup (- EINVAL H) fb None, t @ [E_drmModeGetEncoder d eid])"
      by (simp add: step1)
    from not_found [OF this] show ?thesis by simp
  next
    case enc: (Some enc)
    show ?thesis
    proof (cases "enc_crtc_id enc = 0 \<and> crtcs res = []")
      case True
      with enc have "capture_crtc H d res c m fb t =
          (Undefined_read, t @ [E_drmModeGetEncoder d eid])"
        by (simp add: step1)
      from undefined_read [OF this] show ?thesis by simp
    next
      case ne2: False
      define cid where "cid = (if enc_crtc_id enc \<noteq> 0 then enc_crtc_id enc else crtcs res ! 0)"
      have step2: "capture_crtc H d res c m fb t =
         (if drmModeGetCrtc H d cid = None
          then (At_cleanup (- EINVAL H) (fb\<lparr>crtc := drmModeGetCrtc H d cid\<rparr>) (Some enc),
                t @ [E_drmModeGetEncoder d eid, E_drmModeGetCrtc d cid])
          else map_buffer H d c m enc (fb\<lparr>crtc := drmModeGetCrtc H d cid\<rparr>)
                (t @ [E_drmModeGetEncoder d eid, E_drmModeGetCrtc d cid]))"
        using ne2 enc unfolding step1 cid_def by (simp add: Let_def)
      show ?thesis
      proof (cases "drmModeGetCrtc H d cid")
        case None
        then have "capture_crtc H d res c m fb t =
            (At_cleanup (- EINVAL H) (fb\<lparr>crtc := None\<rparr>) (Some enc),
             t @ [E_drmModeGetEncoder d eid, E_drmModeGetCrtc d cid])"
          by (simp add: step2)
        from not_found [OF this] show ?thesis by simp
      next
        case (Some cr)
        then have "capture_crtc H d res c m fb t =
            map_buffer H d c m enc (fb\<lparr>crtc := Some cr\<rparr>)
              (t @ [E_drmModeGetEncoder d eid, E_drmModeGetCrtc d cid])"
          by (simp add: step2)
        from found [OF this] show ?thesis .
      qed
    qed
  qed
qed

lemma allocate_and_map_cases:
  obtains
    (not_created) err dumb where
      "allocate_and_map H d res c m fb t =
         (At_cleanup err (fb\<lparr>dumb_framebuffer := dumb\<rparr>) None,
          t @ [E_ioctl_CREATE_DUMB d (dumb_request fb m)])"
      "ioctl_CREATE_DUMB H d (dumb_request fb m) = (err, dumb)" "err \<noteq> 0"
  | (not_registered) err dumb bid where
      "allocate_and_map H d res c m fb t =
         (At_cleanup err (fb\<lparr>dumb_framebuffer := dumb, buffer_id := bid\<rparr>) None,
          t @ [E_ioctl_CREATE_DUMB d (dumb_request fb m),
               E_drmModeAddFB2 (registration_args H d m dumb)])"
      "ioctl_CREATE_DUMB H d (dumb_request fb m) = (0, dumb)"
      "drmModeAddFB2 H (registration_args H d m dumb) (buffer_id fb) = (err, bid)" "err \<noteq> 0"
  | (registered) dumb bid where
      "allocate_and_map H d res c m fb t =
         capture_crtc H d res c m (fb\<lparr>dumb_framebuffer := dumb, buffer_id := bid\<rparr>)
           (t @ [E_ioctl_CREATE_DUMB d (dumb_request fb m),
                 E_drmModeAddFB2 (registration_args H d m dumb)])"
      "ioctl_CREATE_DUMB H d (dumb_request fb m) = (0, dumb)"
      "drmModeAddFB2 H (registration_args H d m dumb) (buffer_id fb) = (0, bid)"
proof -
  obtain e1 dumb where c1: "ioctl_CREATE_DUMB H d (dumb_request fb m) = (e1, dumb)"
    by (cases "ioctl_CREATE_DUMB H d (dumb_request fb m)")
  obtain e2 bid where c2:
    "drmModeAddFB2 H (registration_args H d m dumb) (buffer_id fb) = (e2, bid)"
    by (cases "drmModeAddFB2 H (registration_args H d m dumb) (buffer_id fb)")
  show ?thesis
  proof (cases "e1 = 0")
    case False
    with c1 have "allocate_and_map H d res c m fb t =
         (At_cleanup e1 (fb\<lparr>dumb_framebuffer := dumb\<rparr>) None,
          t @ [E_ioctl_CREATE_DUMB d (dumb_request fb m)])"
      by (simp add: allocate_and_map_def)
    from not_created [OF this c1 False] show ?thesis .
  next
    case z1: True
    show ?thesis
    proof (cases "e2 = 0")
      case False
      with c1 c2 z1 have "allocate_and_map H d res c m fb t =
         (At_cleanup e2 (fb\<lparr>dumb_framebuffer := dumb, buffer_id := bid\<rparr>) None,
          t @ [E_ioctl_CREATE_DUMB d (dumb_request fb m),
               E_drmModeAddFB2 (registration_args H d m dumb)])"
        by (simp add: allocate_and_map_def)
      from not_registered [OF this c1 [unfolded z1] c2 False] show ?thesis .
    next
      case True
      with c1 c2 z1 have "allocate_and_map H d res c m fb t =
         capture_crtc H d res c m (fb\<lparr>dumb_framebuffer := dumb, buffer_id := bid\<rparr>)
           (t @ [E_ioctl_CREATE_DUMB d (dumb_request fb m),
                 E_drmModeAddFB2 (registration_args H d m dumb)])"
        by (simp add: allocate_and_map_def)
      from registered [OF this c1 [unfolded z1] c2 [unfolded True]] show ?thesis .
    qed
  qed
qed

lemma capture_crtc_mmap:
  assumes "E_mmap len d' off \<in> set (snd (capture_crtc H d res c m fb t))"
    and "\<forall>e \<in> set t. \<not> is_mmap e"
  shows "mapped_exit H len d' off (dumb_framebuffer fb) (fst (capture_crtc H d res c m fb t))"
proof (cases rule: capture_crtc_cases [of H d res c m fb t])
  case (undefined_read t1)
  with assms show ?thesis by auto
next
  case (not_found fb1 enc t1)
  with assms show ?thesis by auto
next
  case (found enc cr eid cid)
  have pre: "\<forall>e \<in> set (t @ [E_drmModeGetEncoder d eid, E_drmModeGetCrtc d cid]). \<not> is_mmap e"
    using assms(2) by simp
  from assms(1) have "E_mmap len d' off \<in> set (snd (map_buffer H d c m enc (fb\<lparr>crtc := Some cr\<rparr>)
           (t @ [E_drmModeGetEncoder d eid, E_drmModeGetCrtc d cid])))"
    by (simp only: found)
  from map_buffer_mmap [OF this pre] show ?thesis by (simp add: found)
qed

lemma capture_crtc_prefix: "set t \<subseteq> set (snd (capture_crtc H d res c m fb t))"
  by (cases rule: capture_crtc_cases [of H d res c m fb t])
    (auto simp: map_buffer_def Let_def split: prod.splits)

lemma allocate_and_map_mmap:
  assumes "E_mmap len d' off \<in> set (snd (allocate_and_map H d res c m fb t))"
    and "\<forall>e \<in> set t. \<not> is_mmap e"
  shows "E_ioctl_CREATE_DUMB d (dumb_request fb m) \<in> set (snd (allocate_and_map H d res c m fb t))
    \<and> mapped_exit H len d' off (snd (ioctl_CREATE_DUMB H d (dumb_request fb m)))
          (fst (allocate_and_map H d res c m fb t))"
proof (cases rule: allocate_and_map_cases [of H d res c m fb t])
  case (not_created err dumb)
  with assms show ?thesis by auto
next
  case (not_registered err dumb bid)
  with assms show ?thesis by auto
next
  case (registered dumb bid)
  let ?fb = "fb\<lparr>dumb_framebuffer := dumb, buffer_id := bid\<rparr>"
  let ?t = "t @ [E_ioctl_CREATE_DUMB d (dumb_request fb m),
                 E_drmModeAddFB2 (registration_args H d m dumb)]"
  have pre: "\<forall>e \<in> set ?t. \<not> is_mmap e" using assms(2) by simp
  from assms(1) have "E_mmap len d' off \<in> set (snd (capture_crtc H d res c m ?fb ?t))"
    by (simp only: registered(1))
  from capture_crtc_mmap [OF this pre]
  have "mapped_exit H len d' off dumb (fst (capture_crtc H d res c m ?fb ?t))" by simp
  moreover have "E_ioctl_CREATE_DUMB d (dumb_request fb m)
      \<in> set (snd (capture_crtc H d res c m ?fb ?t))"
    using capture_crtc_prefix [of ?t H d res c m ?fb] by auto
  ultimately show ?thesis by (simp add: registered)
qed

text \<open>
  Claim C8. Whenever a run of \<open>get_framebuffer\<close> that returns has asked for a mapping,
  the length it asked for is the size recorded in the dumb buffer of the returned handle,
  and that dumb buffer is what the kernel reported when the buffer was created. If the
  mapping succeeded, the run returns zero and the handle holds the mapped address, so the
  extent of the region the handle records is that same size.
\<close>

theorem mapping_has_dumb_size:
  assumes "get_framebuffer H dev name fb sel = (Returned err fb', t)"
    and "E_mmap len d off \<in> set t"
  shows "len = dumb_size (dumb_framebuffer fb')
    \<and> (\<exists>req. E_ioctl_CREATE_DUMB (sys_open H dev) req \<in> set t
          \<and> dumb_framebuffer fb' = snd (ioctl_CREATE_DUMB H (sys_open H dev) req))
    \<and> (fst (sys_mmap H len d off) \<noteq> MAP_FAILED H \<longrightarrow>
          err = 0 \<and> data fb' = fst (sys_mmap H len d off))"
proof -
  let ?body = "get_framebuffer_body H dev name fb sel"
  let ?d = "sys_open H dev"
  have t: "t = snd ?body @ calls_after_body (fst ?body)"
    using assms(1) get_framebuffer_trace [of H dev name fb sel] by simp
  have res: "Returned err fb' =
     (case fst ?body of
        Return_early err \<Rightarrow> Returned err fb
      | At_cleanup err fb1 enc \<Rightarrow>
          Returned err (if err \<noteq> 0 then fst (release_framebuffer fb1) else fb1)
      | Undefined_read \<Rightarrow> Fault)"
    using assms(1) get_framebuffer_result [of H dev name fb sel] by simp
  have "E_mmap len d off \<notin> set (calls_after_body (fst ?body))"
    using calls_after_body_steps [of "E_mmap len d off" "fst ?body"] by auto
  with assms(2) t have inb: "E_mmap len d off \<in> set (snd ?body)" by simp
  have fc: "\<not> is_mmap e" if "e \<in> set (snd (find_connector H d' n ids))" for e d' n ids
    using find_connector_calls [OF that] by auto
  have "\<exists>req. E_ioctl_CREATE_DUMB ?d req \<in> set (snd ?body)
          \<and> mapped_exit H len d off (snd (ioctl_CREATE_DUMB H ?d req)) (fst ?body)"
  proof (cases rule: get_framebuffer_body_cases [of H dev name fb sel])
    case (selected res c)
    have pre: "\<forall>e \<in> set ([E_open dev, E_drmModeGetResources ?d]
                 @ snd (find_connector H ?d name (connectors res))). \<not> is_mmap e"
      by (auto dest: fc)
    from inb allocate_and_map_mmap [OF _ pre] show ?thesis
      unfolding selected(5) by blast
  qed (use inb in \<open>auto dest: fc\<close>)
  then obtain req where req: "E_ioctl_CREATE_DUMB ?d req \<in> set (snd ?body)"
    and ex: "mapped_exit H len d off (snd (ioctl_CREATE_DUMB H ?d req)) (fst ?body)"
    by blast
  from ex obtain e1 fb1 enc where bx: "fst ?body = At_cleanup e1 fb1 enc"
    and d1: "dumb_framebuffer fb1 = snd (ioctl_CREATE_DUMB H ?d req)"
    and len: "len = dumb_size (snd (ioctl_CREATE_DUMB H ?d req))"
    and ok: "fst (sys_mmap H len d off) \<noteq> MAP_FAILED H \<longrightarrow>
          e1 = 0 \<and> data fb1 = fst (sys_mmap H len d off)"
    by (auto simp: mapped_exit_def split: exit_point.splits)
  from res bx have e: "err = e1"
    and fb': "fb' = (if e1 \<noteq> 0 then fst (release_framebuffer fb1) else fb1)"
    by simp_all
  from fb' have keep: "dumb_framebuffer fb' = dumb_framebuffer fb1" "data fb' = data fb1"
    by (simp_all add: release_keeps)
  from req have "E_ioctl_CREATE_DUMB ?d req \<in> set t" by (simp add: t)
  with len d1 ok e keep show ?thesis by auto
qed

theorem mapping_has_dumb_size_witness:
  "E_mmap 3686400 3 4096 \<in>
     set (snd (get_framebuffer demo_host ''/dev/dri/card0'' ''HDMI-A-1'' zero_framebuffer (- 1)))
   \<and> fst (sys_mmap demo_host 3686400 3 4096) \<noteq> MAP_FAILED demo_host
   \<and> (\<exists>fb'. fst (get_framebuffer demo_host ''/dev/dri/card0'' ''HDMI-A-1'' zero_framebuffer (- 1))
               = Returned 0 fb'
        \<and> dumb_size (dumb_framebuffer fb') = 3686400 \<and> data fb' = 1048576)"
proof -
  have m: "E_mmap 3686400 3 4096 \<in>
     set (snd (get_framebuffer demo_host ''/dev/dri/card0'' ''HDMI-A-1'' zero_framebuffer (- 1)))"
    by (simp add: demo_run)
  have ok: "fst (sys_mmap demo_host 3686400 3 4096) \<noteq> MAP_FAILED demo_host"
    "fst (sys_mmap demo_host 3686400 3 4096) = 1048576"
    by (simp_all add: demo_host_def)
  from mapping_has_dumb_size [OF demo_run, of 3686400 3 4096] m ok
  show ?thesis by (simp add: demo_run)
qed

section \<open>The fields written on success only\<close>

lemma map_buffer_fields:
  "fields_untouched fb (fst (map_buffer H d c m enc fb t))
   \<or> fully_acquired H d c m (map_buffer H d c m enc fb t)"
  by (auto simp: map_buffer_def fields_untouched_def fully_acquired_def Let_def
      split: prod.splits)

lemma capture_crtc_fields:
  "fields_untouched fb (fst (capture_crtc H d res c m fb t))
   \<or> fully_acquired H d c m (capture_crtc H d res c m fb t)"
proof (cases rule: capture_crtc_cases [of H d res c m fb t])
  case (found enc cr eid cid)
  from map_buffer_fields [of "fb\<lparr>crtc := Some cr\<rparr>" H d c m enc
      "t @ [E_drmModeGetEncoder d eid, E_drmModeGetCrtc d cid]"]
  show ?thesis unfolding found by (auto simp: fields_untouched_def split: exit_point.splits)
qed (auto simp: fields_untouched_def)

lemma allocate_and_map_fields:
  "fields_untouched fb (fst (allocate_and_map H d res c m fb t))
   \<or> fully_acquired H d c m (allocate_and_map H d res c m fb t)"
proof (cases rule: allocate_and_map_cases [of H d res c m fb t])
  case (registered dumb bid)
  from capture_crtc_fields [of "fb\<lparr>dumb_framebuffer := dumb, buffer_id := bid\<rparr>" H d res c m
      "t @ [E_ioctl_CREATE_DUMB d (dumb_request fb m),
            E_drmModeAddFB2 (registration_args H d m dumb)]"]
  show ?thesis unfolding registered(1)
    by (auto simp: fields_untouched_def split: exit_point.splits)
qed (auto simp: fields_untouched_def)

text \<open>
  Claim C10, amended. When \<open>get_framebuffer\<close> returns an error, the descriptor and the
  connector of the handle are those the caller passed in. The resolution is the one the
  caller passed in as well, except in one case, where it is null: the error arose after
  the label \<open>cleanup\<close> was reached, so that \<open>release_framebuffer\<close> ran, and the
  caller's handle had a nonzero descriptor and a connector. After one of the \<open>return\<close>
  statements before the label the resolution is always the caller's. If one of the three
  fields has a new value after the call, other than a null resolution, the call returned
  zero, the mapping succeeded, the privilege was dropped, and the descriptor is the one
  that was opened.
\<close>

theorem failure_keeps_handle_fields:
  assumes "get_framebuffer H dev name fb sel = (Returned err fb', t)"
  shows "(err \<noteq> 0 \<longrightarrow>
           fd fb' = fd fb \<and> connector fb' = connector fb
           \<and> resolution fb' =
               (if reaches_cleanup (fst (get_framebuffer_body H dev name fb sel))
                   \<and> fd fb \<noteq> 0 \<and> connector fb \<noteq> None
                then None else resolution fb))
    \<and> (fd fb' \<noteq> fd fb \<or> connector fb' \<noteq> connector fb
          \<or> (resolution fb' \<noteq> resolution fb \<and> resolution fb' \<noteq> None) \<longrightarrow>
         err = 0 \<and> fd fb' = sys_open H dev \<and> data fb' \<noteq> MAP_FAILED H
         \<and> (\<exists>off. E_mmap (dumb_size (dumb_framebuffer fb')) (fd fb') off \<in> set t
                \<and> fst (sys_mmap H (dumb_size (dumb_framebuffer fb')) (fd fb') off) = data fb')
         \<and> E_drmDropMaster (fd fb') \<in> set t)"
proof -
  let ?body = "get_framebuffer_body H dev name fb sel"
  have t: "t = snd ?body @ calls_after_body (fst ?body)"
    using assms get_framebuffer_trace [of H dev name fb sel] by simp
  have res: "Returned err fb' =
     (case fst ?body of
        Return_early err \<Rightarrow> Returned err fb
      | At_cleanup err fb1 enc \<Rightarrow>
          Returned err (if err \<noteq> 0 then fst (release_framebuffer fb1) else fb1)
      | Undefined_read \<Rightarrow> Fault)"
    using assms get_framebuffer_result [of H dev name fb sel] by simp
  have "fields_untouched fb (fst ?body)
        \<or> (\<exists>c m. fully_acquired H (sys_open H dev) c m ?body)"
  proof (cases rule: get_framebuffer_body_cases [of H dev name fb sel])
    case (selected res c)
    from allocate_and_map_fields show ?thesis unfolding selected(5) by blast
  qed (simp_all add: fields_untouched_def)
  then show ?thesis
  proof
    assume "fields_untouched fb (fst ?body)"
    with res show ?thesis
      by (cases "fst ?body")
        (auto simp: fields_untouched_def release_keeps release_resolution split: if_splits)
  next
    assume "\<exists>c m. fully_acquired H (sys_open H dev) c m ?body"
    then obtain c m where "fully_acquired H (sys_open H dev) c m ?body" by blast
    with res show ?thesis
      by (cases "fst ?body") (auto simp: fully_acquired_def t)
  qed
qed

section \<open>Runs on the concrete device\<close>

lemma body_on_device:
  assumes "sys_open H ''/dev/dri/card0'' = 3"
    and "drmModeGetResources H 3 = Some \<lparr>connectors = [40, 41], crtcs = [50]\<rparr>"
    and "drmModeGetConnectorCurrent H = drmModeGetConnectorCurrent demo_host"
    and "DRM_MODE_TYPE_PREFERRED H = 8"
  shows "get_framebuffer_body H ''/dev/dri/card0'' ''HDMI-A-1'' fb (- 1)
   = allocate_and_map H 3 \<lparr>connectors = [40, 41], crtcs = [50]\<rparr> hdmi_connector mode_d fb
       [E_open ''/dev/dri/card0'', E_drmModeGetResources 3,
        E_drmModeGetConnectorCurrent 3 40, E_drmModeFreeConnector vga_connector,
        E_drmModeGetConnectorCurrent 3 41]"
proof -
  have f: "find_connector H 3 ''HDMI-A-1'' [40, 41] =
     (Some hdmi_connector,
      [E_drmModeGetConnectorCurrent 3 40, E_drmModeFreeConnector vga_connector,
       E_drmModeGetConnectorCurrent 3 41])"
    by (simp add: assms(3) demo_host_def strncmp_eq_def candidate_name_vga candidate_name_hdmi)
  show ?thesis
    by (simp add: get_framebuffer_body_def assms(1,2,4) f hdmi_fields select_auto_hdmi
        del: find_connector.simps)
qed

lemma refused_body:
  "get_framebuffer_body refusing_host ''/dev/dri/card0'' ''HDMI-A-1'' fb (- 1)
   = allocate_and_map refusing_host 3 \<lparr>connectors = [40, 41], crtcs = [50]\<rparr> hdmi_connector
       mode_d fb
       [E_open ''/dev/dri/card0'', E_drmModeGetResources 3,
        E_drmModeGetConnectorCurrent 3 40, E_drmModeFreeConnector vga_connector,
        E_drmModeGetConnectorCurrent 3 41]"
  by (rule body_on_device) (simp_all add: refusing_host_def demo_host_def)

lemma refused_allocate:
  "allocate_and_map refusing_host 3 res hdmi_connector mode_d fb t =
     (At_cleanup (- 22)
        (fb\<lparr>dumb_framebuffer := (dumb_framebuffer fb)\<lparr>height := 720, width := 1280, bpp := 32,
              handle := 1, pitch := 5120, dumb_size := 3686400\<rparr>\<rparr>)
        None,
      t @ [E_ioctl_CREATE_DUMB 3 ((dumb_framebuffer fb)\<lparr>height := 720, width := 1280, bpp := 32\<rparr>),
           E_drmModeAddFB2 demo_args])"
  by (simp add: allocate_and_map_def refusing_host_def demo_host_def dumb_request_def
      registration_args_def mode_d_def demo_args_def)

lemma refused_run:
  "get_framebuffer refusing_host ''/dev/dri/card0'' ''HDMI-A-1'' fb (- 1) =
     (Returned (- 22)
        (fst (release_framebuffer
           (fb\<lparr>dumb_framebuffer := (dumb_framebuffer fb)\<lparr>height := 720, width := 1280,
                 bpp := 32, handle := 1, pitch := 5120, dumb_size := 3686400\<rparr>\<rparr>))),
      [E_open ''/dev/dri/card0'', E_drmModeGetResources 3,
       E_drmModeGetConnectorCurrent 3 40, E_drmModeFreeConnector vga_connector,
       E_drmModeGetConnectorCurrent 3 41,
       E_ioctl_CREATE_DUMB 3 ((dumb_framebuffer fb)\<lparr>height := 720, width := 1280, bpp := 32\<rparr>),
       E_drmModeAddFB2 demo_args]
      @ snd (release_framebuffer
           (fb\<lparr>dumb_framebuffer := (dumb_framebuffer fb)\<lparr>height := 720, width := 1280,
                 bpp := 32, handle := 1, pitch := 5120, dumb_size := 3686400\<rparr>\<rparr>)))"
  by (simp add: get_framebuffer_def refused_body refused_allocate cleanup_def)

text \<open>
  Claim C10, as stated, fails. The caller passes a handle with a nonzero descriptor, a
  connector and a resolution; the registration is refused, \<open>release_framebuffer\<close> runs
  at the label \<open>cleanup\<close> on that handle, and the resolution is null afterwards.
\<close>

theorem failure_resets_resolution:
  "fst (get_framebuffer refusing_host ''/dev/dri/card0'' ''HDMI-A-1'' live_framebuffer (- 1))
     = Returned (- 22) (live_framebuffer\<lparr>dumb_framebuffer := demo_dumb, resolution := None\<rparr>)
   \<and> resolution live_framebuffer = Some mode_b"
  by (simp add: refused_run release_framebuffer_def live_framebuffer_def demo_dumb_def)

lemma no_modes_body:
  "get_framebuffer_body demo_host ''/dev/dri/card0'' ''VGA-1'' fb 0 =
     (Return_early (- 22),
      [E_open ''/dev/dri/card0'', E_drmModeGetResources 3, E_drmModeGetConnectorCurrent 3 40])"
proof -
  have f: "find_connector demo_host 3 ''VGA-1'' [40, 41] =
     (Some vga_connector, [E_drmModeGetConnectorCurrent 3 40])"
    by (simp add: demo_host_def strncmp_eq_def candidate_name_vga)
  have o: "sys_open demo_host ''/dev/dri/card0'' = 3"
    "drmModeGetResources demo_host 3 = Some \<lparr>connectors = [40, 41], crtcs = [50]\<rparr>"
    "EINVAL demo_host = 22"
    by (simp_all add: demo_host_def)
  have m: "count_modes vga_connector = 0"
    by (simp add: count_modes_def vga_connector_def)
  show ?thesis
    by (simp add: get_framebuffer_body_def o f m del: find_connector.simps)
qed

theorem failure_keeps_handle_fields_witness:
  "fst (get_framebuffer refusing_host ''/dev/dri/card0'' ''HDMI-A-1'' zero_framebuffer (- 1))
     = Returned (- 22) (zero_framebuffer\<lparr>dumb_framebuffer := demo_dumb\<rparr>)
   \<and> (- 22 :: int) \<noteq> 0
   \<and> fd (zero_framebuffer\<lparr>dumb_framebuffer := demo_dumb\<rparr>) = fd zero_framebuffer
   \<and> connector (zero_framebuffer\<lparr>dumb_framebuffer := demo_dumb\<rparr>) = connector zero_framebuffer
   \<and> resolution (zero_framebuffer\<lparr>dumb_framebuffer := demo_dumb\<rparr>) = resolution zero_framebuffer
   \<and> reaches_cleanup (fst (get_framebuffer_body refusing_host ''/dev/dri/card0'' ''HDMI-A-1''
         live_framebuffer (- 1)))
   \<and> fd live_framebuffer \<noteq> 0 \<and> connector live_framebuffer \<noteq> None
   \<and> fst (get_framebuffer refusing_host ''/dev/dri/card0'' ''HDMI-A-1'' live_framebuffer (- 1))
       = Returned (- 22) (live_framebuffer\<lparr>dumb_framebuffer := demo_dumb, resolution := None\<rparr>)
   \<and> resolution (live_framebuffer\<lparr>dumb_framebuffer := demo_dumb, resolution := None\<rparr>) = None
   \<and> \<not> reaches_cleanup (fst (get_framebuffer_body demo_host ''/dev/dri/card0'' ''VGA-1''
         live_framebuffer 0))
   \<and> fst (get_framebuffer demo_host ''/dev/dri/card0'' ''VGA-1'' live_framebuffer 0)
       = Returned (- 22) live_framebuffer
   \<and> fd \<lparr>fd = 3, buffer_id = 60, dumb_framebuffer = demo_dumb, crtc = Some old_crtc,
           connector = Some hdmi_connector, resolution = Some mode_d, data = 1048576\<rparr>
       \<noteq> fd zero_framebuffer
   \<and> E_drmDropMaster 3 \<in> set (snd (get_framebuffer demo_host ''/dev/dri/card0'' ''HDMI-A-1''
                                    zero_framebuffer (- 1)))"
proof -
  have r: "get_framebuffer refusing_host ''/dev/dri/card0'' ''HDMI-A-1'' zero_framebuffer (- 1) =
     (Returned (- 22) (zero_framebuffer\<lparr>dumb_framebuffer := demo_dumb\<rparr>),
      [E_open ''/dev/dri/card0'', E_drmModeGetResources 3,
       E_drmModeGetConnectorCurrent 3 40, E_drmModeFreeConnector vga_connector,
       E_drmModeGetConnectorCurrent 3 41,
       E_ioctl_CREATE_DUMB 3 (zero_dumb\<lparr>height := 720, width := 1280, bpp := 32\<rparr>),
       E_drmModeAddFB2 demo_args])"
    by (simp add: refused_run release_framebuffer_def zero_framebuffer_def zero_dumb_def
        demo_dumb_def)
  obtain tl where l:
    "get_framebuffer refusing_host ''/dev/dri/card0'' ''HDMI-A-1'' live_framebuffer (- 1) =
     (Returned (- 22) (live_framebuffer\<lparr>dumb_framebuffer := demo_dumb, resolution := None\<rparr>),
      tl)"
    by (simp add: refused_run release_framebuffer_def live_framebuffer_def demo_dumb_def)
  have e: "get_framebuffer demo_host ''/dev/dri/card0'' ''VGA-1'' live_framebuffer 0 =
     (Returned (- 22) live_framebuffer,
      [E_open ''/dev/dri/card0'', E_drmModeGetResources 3, E_drmModeGetConnectorCurrent 3 40])"
    by (simp add: get_framebuffer_def no_modes_body)
  have rc: "reaches_cleanup (fst (get_framebuffer_body refusing_host ''/dev/dri/card0''
         ''HDMI-A-1'' live_framebuffer (- 1)))"
    by (simp add: refused_body refused_allocate)
  have nrc: "\<not> reaches_cleanup (fst (get_framebuffer_body demo_host ''/dev/dri/card0'' ''VGA-1''
         live_framebuffer 0))"
    by (simp add: no_modes_body)
  have lf: "fd live_framebuffer \<noteq> 0" "connector live_framebuffer \<noteq> None"
    by (simp_all add: live_framebuffer_def)
  have c1: "fst (get_framebuffer refusing_host ''/dev/dri/card0'' ''HDMI-A-1'' zero_framebuffer
      (- 1)) = Returned (- 22) (zero_framebuffer\<lparr>dumb_framebuffer := demo_dumb\<rparr>)"
    by (simp add: r)
  have c2: "(- 22 :: int) \<noteq> 0" by simp
  from failure_keeps_handle_fields [OF r]
  have c3: "fd (zero_framebuffer\<lparr>dumb_framebuffer := demo_dumb\<rparr>) = fd zero_framebuffer"
    and c4: "connector (zero_framebuffer\<lparr>dumb_framebuffer := demo_dumb\<rparr>)
              = connector zero_framebuffer"
    by simp_all
  have c5: "resolution (zero_framebuffer\<lparr>dumb_framebuffer := demo_dumb\<rparr>)
              = resolution zero_framebuffer"
    by simp
  have c6: "fst (get_framebuffer refusing_host ''/dev/dri/card0'' ''HDMI-A-1'' live_framebuffer
      (- 1)) = Returned (- 22) (live_framebuffer\<lparr>dumb_framebuffer := demo_dumb, resolution := None\<rparr>)"
    by (simp add: l)
  from failure_keeps_handle_fields [OF l] rc lf
  have c7: "resolution (live_framebuffer\<lparr>dumb_framebuffer := demo_dumb, resolution := None\<rparr>)
              = None"
    by simp
  have c8: "fst (get_framebuffer demo_host ''/dev/dri/card0'' ''VGA-1'' live_framebuffer 0)
       = Returned (- 22) live_framebuffer"
    by (simp add: e)
  have c9: "fd \<lparr>fd = 3, buffer_id = 60, dumb_framebuffer = demo_dumb, crtc = Some old_crtc,
           connector = Some hdmi_connector, resolution = Some mode_d, data = 1048576\<rparr>
       \<noteq> fd zero_framebuffer"
    by (simp add: zero_framebuffer_def)
  from failure_keeps_handle_fields [OF demo_run] c9
  have c10: "E_drmDropMaster 3 \<in> set (snd (get_framebuffer demo_host ''/dev/dri/card0''
      ''HDMI-A-1'' zero_framebuffer (- 1)))"
    by (simp add: demo_run)
  from c1 c2 c3 c4 c5 rc lf c6 c7 nrc c8 c9 c10 show ?thesis
    by (intro conjI) assumption+
qed

section \<open>What a failed acquisition leaves behind\<close>

text \<open>
  Claim C1 does not hold of the code. On a zeroed handle, when the registration of the
  buffer is refused, \<open>get_framebuffer\<close> returns the error after these calls only: the
  rejected connector is freed, but the descriptor is not closed, the matched connector is
  not freed and the dumb buffer is not destroyed, because \<open>release_framebuffer\<close> finds
  the descriptor field of the handle still zero. When the resources cannot be read, the
  function returns at once without closing the descriptor.
\<close>

theorem failed_acquisition_releases_nothing:
  "get_framebuffer refusing_host ''/dev/dri/card0'' ''HDMI-A-1'' zero_framebuffer (- 1) =
     (Returned (- 22) (zero_framebuffer\<lparr>dumb_framebuffer := demo_dumb\<rparr>),
      [E_open ''/dev/dri/card0'', E_drmModeGetResources 3,
       E_drmModeGetConnectorCurrent 3 40, E_drmModeFreeConnector vga_connector,
       E_drmModeGetConnectorCurrent 3 41,
       E_ioctl_CREATE_DUMB 3 (zero_dumb\<lparr>height := 720, width := 1280, bpp := 32\<rparr>),
       E_drmModeAddFB2 demo_args])
   \<and> filter releases
        (snd (get_framebuffer refusing_host ''/dev/dri/card0'' ''HDMI-A-1'' zero_framebuffer (- 1)))
      = [E_drmModeFreeConnector vga_connector]
   \<and> get_framebuffer (demo_host\<lparr>drmModeGetResources := (\<lambda>d. None)\<rparr>) ''/dev/dri/card0''
        ''HDMI-A-1'' zero_framebuffer (- 1) =
     (Returned (- 22) zero_framebuffer, [E_open ''/dev/dri/card0'', E_drmModeGetResources 3])"
proof -
  have r: "get_framebuffer refusing_host ''/dev/dri/card0'' ''HDMI-A-1'' zero_framebuffer (- 1) =
     (Returned (- 22) (zero_framebuffer\<lparr>dumb_framebuffer := demo_dumb\<rparr>),
      [E_open ''/dev/dri/card0'', E_drmModeGetResources 3,
       E_drmModeGetConnectorCurrent 3 40, E_drmModeFreeConnector vga_connector,
       E_drmModeGetConnectorCurrent 3 41,
       E_ioctl_CREATE_DUMB 3 (zero_dumb\<lparr>height := 720, width := 1280, bpp := 32\<rparr>),
       E_drmModeAddFB2 demo_args])"
    by (simp add: refused_run release_framebuffer_def zero_framebuffer_def zero_dumb_def
        demo_dumb_def)
  have e: "get_framebuffer (demo_host\<lparr>drmModeGetResources := (\<lambda>d. None)\<rparr>) ''/dev/dri/card0''
        ''HDMI-A-1'' zero_framebuffer (- 1) =
     (Returned (- 22) zero_framebuffer, [E_open ''/dev/dri/card0'', E_drmModeGetResources 3])"
    by (simp add: get_framebuffer_def get_framebuffer_body_def demo_host_def)
  show ?thesis by (simp add: r e)
qed

section \<open>The arguments of the registration\<close>

text \<open>
  Claim C7 does not hold of the code. The buffer is registered with the width and height
  of the mode, the fixed format, and the handle, the pitch and offset zero in the first
  slot of the arrays; the other three slots of each array are never written and hold what
  the arrays held when the function was entered, here 7.
\<close>

theorem registration_passes_uninitialised_slots:
  "E_drmModeAddFB2
     \<lparr>a_fd = 3, a_width = 1280, a_height = 720,
      a_pixel_format = DRM_FORMAT_ABGR8888 demo_host,
      a_handles = (1, 7, 7, 7), a_pitches = (5120, 7, 7, 7), a_offsets = (0, 7, 7, 7),
      a_flags = 0\<rparr>
     \<in> set (snd (get_framebuffer demo_host ''/dev/dri/card0'' ''HDMI-A-1'' zero_framebuffer (- 1)))
   \<and> uninit_handles demo_host = (7, 7, 7, 7)
   \<and> uninit_pitches demo_host = (7, 7, 7, 7)
   \<and> uninit_offsets demo_host = (7, 7, 7, 7)"
proof -
  have f: "DRM_FORMAT_ABGR8888 demo_host = 875708993"
    "uninit_handles demo_host = (7, 7, 7, 7)"
    "uninit_pitches demo_host = (7, 7, 7, 7)"
    "uninit_offsets demo_host = (7, 7, 7, 7)"
    by (simp_all add: demo_host_def)
  show ?thesis by (simp add: demo_run demo_args_def f)
qed

end
